theory Spec2Isabelle
  imports Main "HOL-Library.AList"
begin

section \<open>Python values, exceptions, rows\<close>

text \<open>
  The data-access layer of \<^verbatim>\<open>djehuty/web/database.py\<close> (class \<^verbatim>\<open>SparqlInterface\<close>).
  Exceptions are values of \<open>py_error\<close>; a function that may raise returns
  \<open>py_error + 'a\<close>. A string is a list of code points below 256.
\<close>

datatype py_error =
  IndexError | KeyError | TypeError | ValueError | UnknownDatabaseState | EmptyDatabase

text \<open>
  A cell of a result row after normalisation: an integer, a boolean, a string, \<^verbatim>\<open>None\<close>,
  or the wire binding left untouched (\<open>VRaw type datatype value\<close>).
\<close>

datatype pyval =
  VInt int | VBool bool | VStr string | VNone | VRaw string "string option" string

type_synonym dict = "(string \<times> pyval) list"

text \<open>A normalised row is a dictionary, or the bare string of a plain literal.\<close>

datatype row = RowDict dict | RowScalar string

text \<open>One cell of the store's JSON answer: \<^verbatim>\<open>{"type": .., "datatype": .., "value": ..}\<close>.\<close>

datatype binding = Binding (b_type: string) (b_datatype: "string option") (b_value: string)

definition dq :: char where "dq = CHR 0x22"
definition nl :: char where "nl = CHR 0x0A"
definition bsl :: char where "bsl = CHR 0x5C"

text \<open>\<^verbatim>\<open>{**a, **b}\<close>: the keys of \<open>a\<close> keep their place, values of \<open>b\<close> win.\<close>

definition dict_merge :: "dict \<Rightarrow> dict \<Rightarrow> dict" where
  "dict_merge a b = fold (\<lambda>(k, v). AList.update k v) b a"

text \<open>Truth value of a Python object (\<^verbatim>\<open>if x:\<close>).\<close>

fun truthy :: "pyval \<Rightarrow> bool" where
  "truthy (VInt n) = (n \<noteq> 0)"
| "truthy (VBool b) = b"
| "truthy (VStr s) = (s \<noteq> [])"
| "truthy VNone = False"
| "truthy (VRaw t d v) = True"

text \<open>\<^verbatim>\<open>s.startswith(p)\<close>\<close>

definition startswith :: "string \<Rightarrow> string \<Rightarrow> bool" where
  "startswith s p = (take (length p) s = p)"

subsection \<open>Decimal digits, \<^verbatim>\<open>str(int)\<close> and \<^verbatim>\<open>int(str)\<close>\<close>

definition digit_char :: "nat \<Rightarrow> char" where
  "digit_char n = ''0123456789'' ! (n mod 10)"

definition digit_val :: "char \<Rightarrow> nat option" where
  "digit_val c = map_of
     [(CHR ''0'', 0), (CHR ''1'', 1), (CHR ''2'', 2), (CHR ''3'', 3), (CHR ''4'', 4),
      (CHR ''5'', 5), (CHR ''6'', 6), (CHR ''7'', 7), (CHR ''8'', 8), (CHR ''9'', 9)] c"

fun str_nat :: "nat \<Rightarrow> string" where
  "str_nat n = (if n < 10 then [digit_char n] else str_nat (n div 10) @ [digit_char n])"

declare str_nat.simps [simp del]

definition str_int :: "int \<Rightarrow> string" where
  "str_int i = (if i < 0 then CHR ''-'' # str_nat (nat (- i)) else str_nat (nat i))"

text \<open>
  \<^verbatim>\<open>int(s)\<close> for a string: surrounding white space (space, the controls 9 to 13, and
  the code points 0x85 and 0xA0) is dropped, one sign is allowed, the digits may be grouped
  by single underscores. Anything else raises ValueError.
\<close>

definition is_space :: "char \<Rightarrow> bool" where
  "is_space c =
     (c \<in> set [CHR '' '', CHR 0x09, CHR 0x0A, CHR 0x0B, CHR 0x0C, CHR 0x0D, CHR 0x85, CHR 0xA0])"

definition strip :: "string \<Rightarrow> string" where
  "strip s = rev (dropWhile is_space (rev (dropWhile is_space s)))"

fun parse_digits :: "nat \<Rightarrow> bool \<Rightarrow> string \<Rightarrow> nat option" where
  "parse_digits acc prev [] = (if prev then Some acc else None)"
| "parse_digits acc prev (c # cs) =
     (case digit_val c of
        Some d \<Rightarrow> parse_digits (10 * acc + d) True cs
      | None \<Rightarrow> if c = CHR ''_'' \<and> prev then parse_digits acc False cs else None)"

definition int_of_string :: "string \<Rightarrow> py_error + int" where
  "int_of_string s =
     (case strip s of
        [] \<Rightarrow> Inl ValueError
      | c # cs \<Rightarrow>
          if c = CHR ''-'' then
            (case parse_digits 0 False cs of None \<Rightarrow> Inl ValueError | Some n \<Rightarrow> Inr (- int n))
          else if c = CHR ''+'' then
            (case parse_digits 0 False cs of None \<Rightarrow> Inl ValueError | Some n \<Rightarrow> Inr (int n))
          else
            (case parse_digits 0 False (c # cs) of None \<Rightarrow> Inl ValueError | Some n \<Rightarrow> Inr (int n)))"

text \<open>\<^verbatim>\<open>int(x)\<close> for a cell value; \<^verbatim>\<open>None\<close> and a dictionary raise TypeError.\<close>

fun py_int :: "pyval \<Rightarrow> py_error + int" where
  "py_int (VInt n) = Inr n"
| "py_int (VBool b) = Inr (if b then 1 else 0)"
| "py_int (VStr s) = int_of_string s"
| "py_int VNone = Inl TypeError"
| "py_int (VRaw t d v) = Inl TypeError"

section \<open>Timestamps: \<^verbatim>\<open>datetime.strptime\<close> and \<^verbatim>\<open>datetime.strftime\<close>\<close>

record datetime =
  year :: nat
  month :: nat
  day :: nat
  hour :: nat
  minute :: nat
  second :: nat

text \<open>
  \<^verbatim>\<open>strptime(s, "%Y-%m-%dT%H:%M:%S")\<close> compiles the format to the regular expression
  \<^verbatim>\<open>(\d\d\d\d)-(1[0-2]|0[1-9]|[1-9])-(3[0-1]|[1-2]\d|0[1-9]|[1-9]| [1-9])T\<close>
  \<^verbatim>\<open>(2[0-3]|[0-1]\d|\d):([0-5]\d|\d):(6[0-1]|[0-5]\d|\d)\<close>, matched ignoring case against a
  prefix of the string; text left over, a year 0, a day beyond the month's length and a
  second above 59 raise ValueError. No alternative of a field contains the separator that
  follows it, so a field is the text up to that separator; the last field is the rest of
  the string. The functions below give each field's alternatives in the order of the
  regular expression.
\<close>

definition match_Y :: "string \<Rightarrow> nat option" where
  "match_Y s =
     (case map digit_val s of
        [Some a, Some b, Some c, Some d] \<Rightarrow> Some (1000 * a + 100 * b + 10 * c + d)
      | _ \<Rightarrow> None)"

definition match_m :: "string \<Rightarrow> nat option" where
  "match_m s =
     (case map digit_val s of
        [Some x, Some y] \<Rightarrow>
          if x = 1 \<and> y \<le> 2 then Some (10 + y)
          else if x = 0 \<and> 1 \<le> y then Some y
          else None
      | [Some x] \<Rightarrow> if 1 \<le> x then Some x else None
      | _ \<Rightarrow> None)"

definition match_d :: "string \<Rightarrow> nat option" where
  "match_d s =
     (case s of
        [a, b] \<Rightarrow>
          (case (digit_val a, digit_val b) of
             (Some x, Some y) \<Rightarrow>
               if x = 3 \<and> y \<le> 1 then Some (30 + y)
               else if 1 \<le> x \<and> x \<le> 2 then Some (10 * x + y)
               else if x = 0 \<and> 1 \<le> y then Some y
               else None
           | (None, Some y) \<Rightarrow> if a = CHR '' '' \<and> 1 \<le> y then Some y else None
           | _ \<Rightarrow> None)
      | [a] \<Rightarrow> (case digit_val a of Some x \<Rightarrow> if 1 \<le> x then Some x else None | None \<Rightarrow> None)
      | _ \<Rightarrow> None)"

definition match_H :: "string \<Rightarrow> nat option" where
  "match_H s =
     (case map digit_val s of
        [Some x, Some y] \<Rightarrow>
          if x = 2 \<and> y \<le> 3 then Some (20 + y)
          else if x \<le> 1 then Some (10 * x + y)
          else None
      | [Some x] \<Rightarrow> Some x
      | _ \<Rightarrow> None)"

definition match_M :: "string \<Rightarrow> nat option" where
  "match_M s =
     (case map digit_val s of
        [Some x, Some y] \<Rightarrow> if x \<le> 5 then Some (10 * x + y) else None
      | [Some x] \<Rightarrow> Some x
      | _ \<Rightarrow> None)"

definition match_S :: "string \<Rightarrow> nat option" where
  "match_S s =
     (case map digit_val s of
        [Some x, Some y] \<Rightarrow>
          if x = 6 \<and> y \<le> 1 then Some (60 + y)
          else if x \<le> 5 then Some (10 * x + y)
          else None
      | [Some x] \<Rightarrow> Some x
      | _ \<Rightarrow> None)"

text \<open>The text before the first separator and the text after it; None without separator.\<close>

definition split_at :: "(char \<Rightarrow> bool) \<Rightarrow> string \<Rightarrow> (string \<times> string) option" where
  "split_at sep s =
     (case dropWhile (\<lambda>c. \<not> sep c) s of
        [] \<Rightarrow> None
      | _ # rest \<Rightarrow> Some (takeWhile (\<lambda>c. \<not> sep c) s, rest))"

definition is_leap :: "nat \<Rightarrow> bool" where
  "is_leap y = (y mod 4 = 0 \<and> (y mod 100 \<noteq> 0 \<or> y mod 400 = 0))"

definition days_in_month :: "nat \<Rightarrow> nat \<Rightarrow> nat" where
  "days_in_month y m =
     (if m = 2 then (if is_leap y then 29 else 28)
      else if m \<in> {4, 6, 9, 11} then 30 else 31)"

definition strptime :: "string \<Rightarrow> py_error + datetime" where
  "strptime s =
     (case match_Y (take 4 s) of
        None \<Rightarrow> Inl ValueError
      | Some y \<Rightarrow>
     (case split_at (\<lambda>c. c = CHR ''-'') (drop 4 s) of
        None \<Rightarrow> Inl ValueError
      | Some (e, s1) \<Rightarrow> if e \<noteq> [] then Inl ValueError else
     (case split_at (\<lambda>c. c = CHR ''-'') s1 of
        None \<Rightarrow> Inl ValueError
      | Some (fm, s2) \<Rightarrow>
     (case split_at (\<lambda>c. c = CHR ''T'' \<or> c = CHR ''t'') s2 of
        None \<Rightarrow> Inl ValueError
      | Some (fd, s3) \<Rightarrow>
     (case split_at (\<lambda>c. c = CHR '':'') s3 of
        None \<Rightarrow> Inl ValueError
      | Some (fH, s4) \<Rightarrow>
     (case split_at (\<lambda>c. c = CHR '':'') s4 of
        None \<Rightarrow> Inl ValueError
      | Some (fM, fS) \<Rightarrow>
     (case (match_m fm, match_d fd, match_H fH, match_M fM, match_S fS) of
        (Some m, Some d, Some H, Some M, Some S) \<Rightarrow>
          if y = 0 \<or> days_in_month y m < d \<or> 59 < S then Inl ValueError
          else Inr \<lparr>year = y, month = m, day = d, hour = H, minute = M, second = S\<rparr>
      | _ \<Rightarrow> Inl ValueError)))))))"

definition pad2 :: "nat \<Rightarrow> string" where
  "pad2 n = [digit_char (n div 10), digit_char n]"

text \<open>
  The date and the time of day, two digits a field, around a separator. The year is
  printed as \<^verbatim>\<open>str\<close> prints it: the C library pads \<^verbatim>\<open>%Y\<close> to four digits on some
  platforms only, so the two agree from the year 1000 on.
\<close>

definition render_datetime :: "char \<Rightarrow> datetime \<Rightarrow> string" where
  "render_datetime sep t =
     str_nat (year t) @ ''-'' @ pad2 (month t) @ ''-'' @ pad2 (day t) @ [sep] @
     pad2 (hour t) @ '':'' @ pad2 (minute t) @ '':'' @ pad2 (second t)"

text \<open>\<^verbatim>\<open>datetime.strftime (timestamp, "%Y-%m-%d %H:%M:%S")\<close>\<close>

definition strftime :: "datetime \<Rightarrow> string" where
  "strftime t = render_datetime CHR '' '' t"

text \<open>
  The dateTime branch of \<^verbatim>\<open>__normalize_binding\<close>: \<^verbatim>\<open>time_value[-1]\<close> raises IndexError
  on the empty string.
\<close>

definition normalize_dateTime :: "string \<Rightarrow> py_error + string" where
  "normalize_dateTime v =
     (if v = [] then Inl IndexError
      else
        let time_value = (if last v = CHR ''Z'' then butlast v else v)
        in (case strptime time_value of
              Inl e \<Rightarrow> Inl e
            | Inr timestamp \<Rightarrow> Inr (strftime timestamp)))"

section \<open>Cache layer and identifier allocator\<close>

text \<open>
  A query is a rendered template (name and parameters) or the insertion of a graph of
  triples (subject, predicate, object) into the state graph.
\<close>

type_synonym triple = "string \<times> string \<times> pyval"

datatype query = Template string dict | InsertGraph string "triple list"

text \<open>
  Modelled from the spec: the cache layer (\<^verbatim>\<open>djehuty.web.cache\<close>) is not part of the
  sources. Its contract: \<^verbatim>\<open>key = deriveKey(content)\<close>, deterministic in the exact query
  text; \<^verbatim>\<open>get(prefix, key) -> value | miss\<close>; \<^verbatim>\<open>put(prefix, key, value)\<close>;
  \<^verbatim>\<open>invalidateByPrefix(prefix)\<close>; every operation degrades to a miss when the backend is
  not ready.
\<close>

record cache_layer =
  ready :: bool
  entries :: "string option \<times> query \<Rightarrow> row list option"

definition make_key :: "query \<Rightarrow> query" where
  "make_key content = content"

definition cached_value :: "cache_layer \<Rightarrow> string option \<Rightarrow> query \<Rightarrow> row list option" where
  "cached_value c prefix key = (if ready c then entries c (prefix, key) else None)"

definition cache_value :: "cache_layer \<Rightarrow> string option \<Rightarrow> query \<Rightarrow> row list \<Rightarrow> cache_layer" where
  "cache_value c prefix key v =
     (if ready c then c\<lparr>entries := (entries c)((prefix, key) \<mapsto> v)\<rparr> else c)"

definition invalidate_by_prefix :: "cache_layer \<Rightarrow> string \<Rightarrow> cache_layer" where
  "invalidate_by_prefix c prefix =
     (if ready c
      then c\<lparr>entries := (\<lambda>(p, k). if p = Some prefix then None else entries c (p, k))\<rparr>
      else c)"

text \<open>
  Modelled from the spec: the identifier allocator (\<^verbatim>\<open>djehuty.utils.counters\<close>) is not
  part of the sources. Its contract: one counter per registered entity kind;
  \<^verbatim>\<open>currentId(kind) -> number | absent\<close>; \<^verbatim>\<open>nextId(kind) -> number\<close> increments and
  returns. \<^verbatim>\<open>set_id\<close> stores what the caller passes. A counter that holds no number
  cannot be incremented.
\<close>

type_synonym id_generator = "(string \<times> pyval) list"




definition next_id :: "string \<Rightarrow> id_generator \<Rightarrow> py_error + (int \<times> id_generator)" where
  "next_id item_type g =
     (case map_of g item_type of
        Some (VInt n) \<Rightarrow> Inr (n + 1, AList.update item_type (VInt (n + 1)) g)
      | _ \<Rightarrow> Inl TypeError)"

section \<open>The interface object and its environment\<close>

datatype log_entry = LogInfo string | LogWarning string | LogError string

text \<open>The fields of \<^verbatim>\<open>SparqlInterface\<close> that the operations read or write, and the log.\<close>

record db =
  ids :: id_generator
  state_graph :: string
  privileges :: "pyval \<Rightarrow> dict option"
  cache :: cache_layer
  sparql_is_up :: bool
  log :: "log_entry list"

text \<open>What \<^verbatim>\<open>self.sparql.query().convert()\<close> does: the bindings of the answer, or a raise.\<close>

datatype response =
  Bindings "(string \<times> binding) list list" | URLError | QueryBadFormed | OtherException string

text \<open>
  What the layer calls and the sources do not define: the store behind the endpoint
  (\<open>store_query\<close>, on a store state \<open>'st\<close>), the text of a query (\<open>render\<close>: the template
  files and \<^verbatim>\<open>rdf.insert_query\<close>), \<^verbatim>\<open>int(float(s))\<close> (\<open>float_int\<close>), the text of an exception
  (\<open>err_text\<close>), \<^verbatim>\<open>conv.to_camel\<close>, the clock (\<open>now\<close>, already formatted) and the
  environment variable \<^verbatim>\<open>WERKZEUG_RUN_MAIN\<close>.
\<close>

record 'st env =
  store_query :: "'st \<Rightarrow> query \<Rightarrow> response \<times> 'st"
  render :: "query \<Rightarrow> string"
  float_int :: "string \<Rightarrow> py_error + int"
  err_text :: "py_error \<Rightarrow> string"
  to_camel :: "string \<Rightarrow> string"
  now :: string
  werkzeug_run_main :: bool

section \<open>Value coercion: \<^verbatim>\<open>__normalize_binding\<close>\<close>

definition xsd :: "string \<Rightarrow> string" where
  "xsd name = ''http://www.w3.org/2001/XMLSchema#'' @ name"

text \<open>
  One item of the record: the log lines, and either a raise, or the value that now
  stands in the record (\<open>Inl\<close>), or the string the whole call returns (\<open>Inr\<close>).
\<close>

definition normalize_item ::
  "(string \<Rightarrow> py_error + int) \<Rightarrow> binding \<Rightarrow> log_entry list \<times> (py_error + (pyval + string))" where
  "normalize_item fl b =
     (let unchanged = VRaw (b_type b) (b_datatype b) (b_value b) in
      if b_type b = ''typed-literal'' then
        (case b_datatype b of
           None \<Rightarrow> ([], Inl KeyError)
         | Some datatype \<Rightarrow>
             if datatype = xsd ''integer'' \<or> datatype = xsd ''decimal'' then
               (case fl (b_value b) of
                  Inl e \<Rightarrow> ([], Inl e) | Inr n \<Rightarrow> ([], Inr (Inl (VInt n))))
             else if datatype = xsd ''boolean'' then
               (case int_of_string (b_value b) of
                  Inl e \<Rightarrow> ([], Inl e) | Inr n \<Rightarrow> ([], Inr (Inl (VBool (n \<noteq> 0)))))
             else if datatype = xsd ''dateTime'' then
               (case normalize_dateTime (b_value b) of
                  Inl e \<Rightarrow> ([], Inl e) | Inr s \<Rightarrow> ([], Inr (Inl (VStr s))))
             else if datatype = xsd ''string'' then
               (if b_value b = ''NULL'' then ([], Inr (Inl VNone))
                else ([], Inr (Inl (VStr (b_value b)))))
             else ([], Inr (Inl unchanged)))
      else if b_type b = ''literal'' then
        (if startswith (b_value b) ''Modify '' \<or> startswith (b_value b) ''Insert into ''
            \<or> startswith (b_value b) ''Delete from ''
         then ([LogInfo (''RDF store: '' @ b_value b)], Inr (Inr (b_value b)))
         else ([LogInfo (''Literal: '' @ b_value b)], Inr (Inr (b_value b))))
      else if b_type b = ''uri'' then ([], Inr (Inl (VStr (b_value b))))
      else ([LogInfo (''Not a typed-literal: '' @ b_type b)], Inr (Inl unchanged)))"

text \<open>The loop over the items of one record; \<open>done\<close> holds the items already visited.\<close>

fun normalize_items ::
  "(string \<Rightarrow> py_error + int) \<Rightarrow> dict \<Rightarrow> (string \<times> binding) list \<Rightarrow> log_entry list \<times> (py_error + row)" where
  "normalize_items fl done [] = ([], Inr (RowDict done))"
| "normalize_items fl done ((item, b) # rest) =
     (case normalize_item fl b of
        (l, Inl e) \<Rightarrow> (l, Inl e)
      | (l, Inr (Inr s)) \<Rightarrow> (l, Inr (RowScalar s))
      | (l, Inr (Inl v)) \<Rightarrow>
          (case normalize_items fl (done @ [(item, v)]) rest of (l', r) \<Rightarrow> (l @ l', r)))"

definition normalize_binding ::
  "(string \<Rightarrow> py_error + int) \<Rightarrow> (string \<times> binding) list \<Rightarrow> log_entry list \<times> (py_error + row)" where
  "normalize_binding fl record = normalize_items fl [] record"

text \<open>\<^verbatim>\<open>list(map(self.__normalize_binding, bindings))\<close>: the first raise ends the map.\<close>

fun normalize_all ::
  "(string \<Rightarrow> py_error + int) \<Rightarrow> (string \<times> binding) list list \<Rightarrow> log_entry list \<times> (py_error + row list)" where
  "normalize_all fl [] = ([], Inr [])"
| "normalize_all fl (record # records) =
     (case normalize_binding fl record of
        (l, Inl e) \<Rightarrow> (l, Inl e)
      | (l, Inr r) \<Rightarrow>
          (case normalize_all fl records of
             (l', Inl e) \<Rightarrow> (l @ l', Inl e)
           | (l', Inr rs) \<Rightarrow> (l @ l', Inr (r # rs))))"

section \<open>Store interface: \<^verbatim>\<open>__run_query\<close>\<close>

definition msg_down :: log_entry where
  "msg_down = LogError ''Connection to the SPARQL endpoint seems down.''"

definition msg_up :: log_entry where
  "msg_up = LogInfo ''Connection to the SPARQL endpoint seems up again.''"

text \<open>\<^verbatim>\<open>__log_query\<close>: \<^verbatim>\<open>logging.info ("Query:\n---\n%s\n---", query)\<close>\<close>

definition log_query :: "'st env \<Rightarrow> query \<Rightarrow> log_entry" where
  "log_query E query =
     LogInfo (''Query:'' @ [nl] @ ''---'' @ [nl] @ render E query @ [nl] @ ''---'')"

definition add_log :: "log_entry list \<Rightarrow> db \<Rightarrow> db" where
  "add_log l s = s\<lparr>log := log s @ l\<rparr>"

definition query_failed :: "'st env \<Rightarrow> string \<Rightarrow> query \<Rightarrow> db \<Rightarrow> db" where
  "query_failed E error query s =
     add_log [LogError ''SPARQL query failed.'', LogError (''Exception: '' @ error),
              log_query E query] s"

definition run_query ::
  "'st env \<Rightarrow> query \<Rightarrow> query option \<Rightarrow> string option \<Rightarrow> db \<times> 'st \<Rightarrow> row list \<times> (db \<times> 'st)" where
  "run_query E query cache_key_string prefix w =
     (case w of (s, st) \<Rightarrow>
      (case (case cache_key_string of
               None \<Rightarrow> None
             | Some cks \<Rightarrow> cached_value (cache s) prefix (make_key cks)) of
         Some cached \<Rightarrow> (cached, (s, st))
       | None \<Rightarrow>
          (case store_query E st query of
             (Bindings bs, st') \<Rightarrow>
               (case normalize_all (float_int E) bs of
                  (l, Inl e) \<Rightarrow> ([], (query_failed E (err_text E e) query (add_log l s), st'))
                | (l, Inr results) \<Rightarrow>
                    (let s1 = add_log l s;
                         s2 = (case cache_key_string of
                                 None \<Rightarrow> s1
                               | Some cks \<Rightarrow>
                                   s1\<lparr>cache := cache_value (cache s1) prefix (make_key cks) results\<rparr>);
                         s3 = (if \<not> sparql_is_up s2
                               then (add_log [msg_up] s2)\<lparr>sparql_is_up := True\<rparr>
                               else s2)
                     in (results, (s3, st'))))
           | (URLError, st') \<Rightarrow>
               ([], (if sparql_is_up s
                     then (add_log [msg_down] s)\<lparr>sparql_is_up := False\<rparr>
                     else s, st'))
           | (QueryBadFormed, st') \<Rightarrow>
               ([], (add_log [LogError ''Badly formed SPARQL query:'', log_query E query] s, st'))
           | (OtherException error, st') \<Rightarrow>
               ([], (query_failed E error query s, st')))))"

text \<open>\<^verbatim>\<open>__query_from_template\<close>: the graph scope is always a parameter.\<close>

definition query_from_template :: "db \<Rightarrow> string \<Rightarrow> dict \<Rightarrow> query" where
  "query_from_template s name args =
     Template name (dict_merge args [(''state_graph'', VStr (state_graph s))])"

text \<open>A run of calls of \<open>run_query\<close>: the states after each call.\<close>

fun run_queries ::
  "'st env \<Rightarrow> (query \<times> query option \<times> string option) list \<Rightarrow> db \<times> 'st \<Rightarrow> (db \<times> 'st) list" where
  "run_queries E [] w = []"
| "run_queries E ((q, k, p) # calls) w =
     (let w' = snd (run_query E q k p w) in w' # run_queries E calls w')"

text \<open>The number of changes from up to down, and from down to up, in a run of flags.\<close>

fun went_down :: "bool list \<Rightarrow> nat" where
  "went_down (a # b # r) = (if a \<and> \<not> b then 1 else 0) + went_down (b # r)"
| "went_down r = 0"

fun came_up :: "bool list \<Rightarrow> nat" where
  "came_up (a # b # r) = (if \<not> a \<and> b then 1 else 0) + came_up (b # r)"
| "came_up r = 0"

text \<open>
  What becomes of one call of \<open>run_query\<close>, read off the cache and the answer of the
  store: the value is served from the cache and the store is not asked; the store
  answers and the rows normalise (a successful query); the store cannot be reached; or
  the query fails in another way (a malformed query, another error of the store, a raise
  while the rows are normalised).
\<close>

datatype outcome = Cached | Answered | Unreachable | Failed

definition call_outcome ::
  "'st env \<Rightarrow> query \<Rightarrow> query option \<Rightarrow> string option \<Rightarrow> db \<times> 'st \<Rightarrow> outcome" where
  "call_outcome E q k p w =
     (case w of (s, st) \<Rightarrow>
      (case (case k of
               None \<Rightarrow> None
             | Some cks \<Rightarrow> cached_value (cache s) p (make_key cks)) of
         Some cached \<Rightarrow> Cached
       | None \<Rightarrow>
           (case fst (store_query E st q) of
              Bindings bs \<Rightarrow>
                (case snd (normalize_all (float_int E) bs) of
                   Inl e \<Rightarrow> Failed
                 | Inr results \<Rightarrow> Answered)
            | URLError \<Rightarrow> Unreachable
            | QueryBadFormed \<Rightarrow> Failed
            | OtherException error \<Rightarrow> Failed)))"

text \<open>The outcomes of the calls of a run, each at the state the calls before it left.\<close>

fun run_outcomes ::
  "'st env \<Rightarrow> (query \<times> query option \<times> string option) list \<Rightarrow> db \<times> 'st \<Rightarrow> outcome list" where
  "run_outcomes E [] w = []"
| "run_outcomes E ((q, k, p) # calls) w =
     call_outcome E q k p w # run_outcomes E calls (snd (run_query E q k p w))"

text \<open>
  The connection as the outcomes show it: down from a call that could not reach the
  store, up from a successful query, as before otherwise. An outage begins with a call
  that cannot reach the store while the connection counts as up, and lasts, through any
  number of failed calls, until the next successful query, which is the recovery.
\<close>

fun connection_after :: "bool \<Rightarrow> outcome \<Rightarrow> bool" where
  "connection_after up Unreachable = False"
| "connection_after up Answered = True"
| "connection_after up Cached = up"
| "connection_after up Failed = up"

fun connection_states :: "bool \<Rightarrow> outcome list \<Rightarrow> bool list" where
  "connection_states up [] = []"
| "connection_states up (oc # ocs) =
     connection_after up oc # connection_states (connection_after up oc) ocs"

fun outages :: "bool \<Rightarrow> outcome list \<Rightarrow> nat" where
  "outages up [] = 0"
| "outages up (oc # ocs) =
     (if up \<and> oc = Unreachable then 1 else 0) + outages (connection_after up oc) ocs"

fun recoveries :: "bool \<Rightarrow> outcome list \<Rightarrow> nat" where
  "recoveries up [] = 0"
| "recoveries up (oc # ocs) =
     (if \<not> up \<and> oc = Answered then 1 else 0) + recoveries (connection_after up oc) ocs"

section \<open>Startup: \<^verbatim>\<open>__highest_id\<close> and \<^verbatim>\<open>load_state\<close>\<close>






section \<open>Accounts and privileges\<close>

text \<open>
  \<^verbatim>\<open>account_by_session_token\<close>: IndexError gives None; KeyError (no \<^verbatim>\<open>account_id\<close> in the
  row, or no entry in \<^verbatim>\<open>self.privileges\<close>) gives the account as it is. What \<^verbatim>\<open>int\<close> raises,
  and the TypeError of indexing a bare string, are not caught.
\<close>

definition account_by_session_token ::
  "'st env \<Rightarrow> pyval \<Rightarrow> db \<times> 'st \<Rightarrow> (py_error + dict option) \<times> (db \<times> 'st)" where
  "account_by_session_token E session_token w =
     (let query = query_from_template (fst w) ''account_by_session_token'' [(''token'', session_token)]
      in (case run_query E query None None w of
            ([], w') \<Rightarrow> (Inr None, w')
          | (RowScalar _ # _, w') \<Rightarrow> (Inl TypeError, w')
          | (RowDict account # _, w') \<Rightarrow>
              (case map_of account ''account_id'' of
                 None \<Rightarrow> (Inr (Some account), w')
               | Some v \<Rightarrow>
                   (case py_int v of
                      Inl e \<Rightarrow> (Inl e, w')
                    | Inr n \<Rightarrow>
                        (case privileges (fst w') (VInt n) of
                           None \<Rightarrow> (Inr (Some account), w')
                         | Some privs \<Rightarrow> (Inr (Some (dict_merge account privs)), w'))))))"

text \<open>
  \<^verbatim>\<open>__may_execute_role\<close>: \<^verbatim>\<open>account[f"may_{task}"]\<close>; KeyError and TypeError (the
  account is None) give False.
\<close>

definition may_execute_role ::
  "'st env \<Rightarrow> pyval \<Rightarrow> string \<Rightarrow> db \<times> 'st \<Rightarrow> (py_error + pyval) \<times> (db \<times> 'st)" where
  "may_execute_role E session_token task w =
     (case account_by_session_token E session_token w of
        (Inl e, w') \<Rightarrow> (Inl e, w')
      | (Inr None, w') \<Rightarrow> (Inr (VBool False), w')
      | (Inr (Some account), w') \<Rightarrow>
          (case map_of account (''may_'' @ task) of
             None \<Rightarrow> (Inr (VBool False), w')
           | Some v \<Rightarrow> (Inr v, w')))"

definition may_administer ::
  "'st env \<Rightarrow> pyval \<Rightarrow> db \<times> 'st \<Rightarrow> (py_error + pyval) \<times> (db \<times> 'st)" where
  "may_administer E session_token w = may_execute_role E session_token ''administer'' w"

definition may_impersonate ::
  "'st env \<Rightarrow> pyval \<Rightarrow> db \<times> 'st \<Rightarrow> (py_error + pyval) \<times> (db \<times> 'st)" where
  "may_impersonate E session_token w = may_execute_role E session_token ''impersonate'' w"

section \<open>Write operations\<close>

text \<open>The namespaces of \<^verbatim>\<open>djehuty.utils.rdf\<close>, as prefixes of the names.\<close>

definition ROW :: "string \<Rightarrow> string" where "ROW name = ''row:'' @ name"
definition SG :: "string \<Rightarrow> string" where "SG name = ''sg:'' @ name"
definition COL :: "string \<Rightarrow> string" where "COL name = ''col:'' @ name"
definition RDF_type :: string where "RDF_type = ''rdf:type''"

text \<open>
  \<^verbatim>\<open>str.capitalize\<close>: the first character in title case, the others in lower case.
  Besides a to z, the code points below 256 have the small letters 0xE0 to 0xFE (but
  0xF7) with capitals 0x20 lower, and the sharp s 0xDF, whose title case is the two
  letters \<^verbatim>\<open>Ss\<close>. The capitals of 0xB5 and 0xFF lie beyond code point 255: a text that
  starts with one of the two has no capitalised form among these strings, and is left
  as it is here.
\<close>

definition small_letters :: string where
  "small_letters =
     ''abcdefghijklmnopqrstuvwxyz'' @
     [CHR 0xE0, CHR 0xE1, CHR 0xE2, CHR 0xE3, CHR 0xE4, CHR 0xE5, CHR 0xE6, CHR 0xE7,
      CHR 0xE8, CHR 0xE9, CHR 0xEA, CHR 0xEB, CHR 0xEC, CHR 0xED, CHR 0xEE, CHR 0xEF,
      CHR 0xF0, CHR 0xF1, CHR 0xF2, CHR 0xF3, CHR 0xF4, CHR 0xF5, CHR 0xF6, CHR 0xF8,
      CHR 0xF9, CHR 0xFA, CHR 0xFB, CHR 0xFC, CHR 0xFD, CHR 0xFE]"

definition capital_letters :: string where
  "capital_letters =
     ''ABCDEFGHIJKLMNOPQRSTUVWXYZ'' @
     [CHR 0xC0, CHR 0xC1, CHR 0xC2, CHR 0xC3, CHR 0xC4, CHR 0xC5, CHR 0xC6, CHR 0xC7,
      CHR 0xC8, CHR 0xC9, CHR 0xCA, CHR 0xCB, CHR 0xCC, CHR 0xCD, CHR 0xCE, CHR 0xCF,
      CHR 0xD0, CHR 0xD1, CHR 0xD2, CHR 0xD3, CHR 0xD4, CHR 0xD5, CHR 0xD6, CHR 0xD8,
      CHR 0xD9, CHR 0xDA, CHR 0xDB, CHR 0xDC, CHR 0xDD, CHR 0xDE]"

definition to_upper :: "char \<Rightarrow> char" where
  "to_upper c = (case map_of (zip small_letters capital_letters) c of None \<Rightarrow> c | Some u \<Rightarrow> u)"

definition to_lower :: "char \<Rightarrow> char" where
  "to_lower c = (case map_of (zip capital_letters small_letters) c of None \<Rightarrow> c | Some l \<Rightarrow> l)"

definition capitalize :: "string \<Rightarrow> string" where
  "capitalize s =
     (case s of
        [] \<Rightarrow> []
      | c # cs \<Rightarrow> (if c = CHR 0xDF then ''Ss'' else [to_upper c]) @ map to_lower cs)"

text \<open>A \<^verbatim>\<open>for\<close> loop over calls that may raise; what a call returns is dropped.\<close>

fun for_each ::
  "('a \<Rightarrow> 'w \<Rightarrow> (py_error + 'b) \<times> 'w) \<Rightarrow> 'a list \<Rightarrow> 'w \<Rightarrow> (py_error + unit) \<times> 'w" where
  "for_each f [] w = (Inr (), w)"
| "for_each f (x # xs) w =
     (case f x w of (Inl e, w') \<Rightarrow> (Inl e, w') | (Inr r, w') \<Rightarrow> for_each f xs w')"

text \<open>An optional list argument: \<^verbatim>\<open>None\<close> and \<^verbatim>\<open>[]\<close> are both false in \<^verbatim>\<open>if results and xs\<close>.\<close>

definition list_arg :: "'a list option \<Rightarrow> 'a list" where
  "list_arg xs = (case xs of None \<Rightarrow> [] | Some l \<Rightarrow> l)"

definition invalidate :: "string \<Rightarrow> db \<Rightarrow> db" where
  "invalidate prefix s = s\<lparr>cache := invalidate_by_prefix (cache s) prefix\<rparr>"

subsection \<open>Category and article links\<close>

definition insert_item_category ::
  "'st env \<Rightarrow> int \<Rightarrow> int \<Rightarrow> string \<Rightarrow> db \<times> 'st \<Rightarrow> (py_error + int option) \<times> (db \<times> 'st)" where
  "insert_item_category E item_id category_id item_type w =
     (case w of (s, st) \<Rightarrow>
      (let prefix = capitalize item_type in
       case next_id (item_type @ ''_category'') (ids s) of
         Inl e \<Rightarrow> (Inl e, w)
       | Inr (link_id, g) \<Rightarrow>
           (let link_uri = ROW (item_type @ ''_category_link_'' @ str_int link_id);
                graph = [(link_uri, RDF_type, VStr (SG (prefix @ ''Category''))),
                         (link_uri, COL ''id'', VInt link_id),
                         (link_uri, COL ''category_id'', VInt category_id),
                         (link_uri, COL (item_type @ ''_version_id''), VInt item_id)];
                query = InsertGraph (state_graph s) graph
            in (case run_query E query None None (s\<lparr>ids := g\<rparr>, st) of
                  (results, w') \<Rightarrow> (Inr (if results \<noteq> [] then Some link_id else None), w')))))"

definition insert_article_category ::
  "'st env \<Rightarrow> int \<Rightarrow> int \<Rightarrow> db \<times> 'st \<Rightarrow> (py_error + int option) \<times> (db \<times> 'st)" where
  "insert_article_category E article_id category_id w =
     insert_item_category E article_id category_id ''article'' w"

definition insert_collection_category ::
  "'st env \<Rightarrow> int \<Rightarrow> int \<Rightarrow> db \<times> 'st \<Rightarrow> (py_error + int option) \<times> (db \<times> 'st)" where
  "insert_collection_category E collection_version_id category_id w =
     insert_item_category E collection_version_id category_id ''collection'' w"

definition delete_item_categories ::
  "'st env \<Rightarrow> int \<Rightarrow> pyval \<Rightarrow> pyval \<Rightarrow> string \<Rightarrow> db \<times> 'st \<Rightarrow> row list \<times> (db \<times> 'st)" where
  "delete_item_categories E item_id account_id category_id item_type w =
     (let prefix = capitalize item_type;
          query = query_from_template (fst w) ''delete_item_categories''
                    [(''item_id'', VInt item_id), (''item_type'', VStr item_type),
                     (''prefix'', VStr prefix), (''account_id'', account_id),
                     (''category_id'', category_id)]
      in run_query E query None None w)"

definition delete_article_categories ::
  "'st env \<Rightarrow> int \<Rightarrow> pyval \<Rightarrow> pyval \<Rightarrow> db \<times> 'st \<Rightarrow> row list \<times> (db \<times> 'st)" where
  "delete_article_categories E article_id account_id category_id w =
     delete_item_categories E article_id account_id category_id ''article'' w"

definition delete_collection_categories ::
  "'st env \<Rightarrow> int \<Rightarrow> pyval \<Rightarrow> pyval \<Rightarrow> db \<times> 'st \<Rightarrow> row list \<times> (db \<times> 'st)" where
  "delete_collection_categories E collection_version_id account_id category_id w =
     delete_item_categories E collection_version_id account_id category_id ''collection'' w"

definition delete_collection_articles ::
  "'st env \<Rightarrow> int \<Rightarrow> pyval \<Rightarrow> db \<times> 'st \<Rightarrow> row list \<times> (db \<times> 'st)" where
  "delete_collection_articles E collection_version_id account_id w =
     (let query = query_from_template (fst w) ''delete_collection_articles''
                    [(''collection_version_id'', VInt collection_version_id),
                     (''account_id'', account_id)]
      in run_query E query None None w)"

text \<open>\<^verbatim>\<open>insert_collection_article\<close> returns False, None or the identifier of the link.\<close>

definition insert_collection_article ::
  "'st env \<Rightarrow> int option \<Rightarrow> int option \<Rightarrow> db \<times> 'st \<Rightarrow> (py_error + pyval) \<times> (db \<times> 'st)" where
  "insert_collection_article E collection_version_id article_version_id w =
     (case (collection_version_id, article_version_id) of
        (Some cv, Some av) \<Rightarrow>
          (case w of (s, st) \<Rightarrow>
           (case next_id ''collection_article'' (ids s) of
              Inl e \<Rightarrow> (Inl e, w)
            | Inr (link_id, g) \<Rightarrow>
                (let link_uri = ROW (''collection_article_'' @ str_int link_id);
                     graph = [(link_uri, RDF_type, VStr (SG ''CollectionArticle'')),
                              (link_uri, COL ''id'', VInt link_id),
                              (link_uri, COL ''collection_version_id'', VInt cv),
                              (link_uri, COL ''article_version_id'', VInt av)];
                     query = InsertGraph (state_graph s) graph
                 in (case run_query E query None None (s\<lparr>ids := g\<rparr>, st) of
                       (results, (s', st')) \<Rightarrow>
                         if results \<noteq> [] then (Inr (VInt link_id), (invalidate ''article'' s', st'))
                         else (Inr VNone, (s', st'))))))
      | _ \<Rightarrow> (Inr (VBool False), w))"

subsection \<open>Updating an article or a collection\<close>

text \<open>The keyword arguments of \<^verbatim>\<open>update_article\<close> that the template patches.\<close>

record article_patch =
  title :: pyval
  description :: pyval
  resource_doi :: pyval
  resource_title :: pyval
  license_id :: pyval
  group_id :: pyval
  time_coverage :: pyval
  publisher :: pyval
  language :: pyval
  mimetype :: pyval
  contributors :: pyval
  license_remarks :: pyval
  geolocation :: pyval
  longitude :: pyval
  latitude :: pyval
  data_link :: pyval
  has_linked_file :: pyval
  derived_from :: pyval
  same_as :: pyval
  organizations :: pyval
  defined_type :: pyval
  defined_type_name :: pyval

definition update_article_query :: "'st env \<Rightarrow> db \<Rightarrow> int \<Rightarrow> pyval \<Rightarrow> article_patch \<Rightarrow> query" where
  "update_article_query E s article_version_id account_id a =
     query_from_template s ''update_article''
       [(''account_id'', account_id),
        (''article_version_id'', VInt article_version_id),
        (''contributors'', contributors a),
        (''data_link'', data_link a),
        (''defined_type'', defined_type a),
        (''defined_type_name'', defined_type_name a),
        (''derived_from'', derived_from a),
        (''description'', description a),
        (''format'', mimetype a),
        (''geolocation'', geolocation a),
        (''has_linked_file'', has_linked_file a),
        (''language'', language a),
        (''latitude'', latitude a),
        (''license_id'', license_id a),
        (''group_id'', group_id a),
        (''license_remarks'', license_remarks a),
        (''longitude'', longitude a),
        (''modified_date'', VStr (now E)),
        (''organizations'', organizations a),
        (''publisher'', publisher a),
        (''resource_doi'', resource_doi a),
        (''resource_title'', resource_title a),
        (''same_as'', same_as a),
        (''time_coverage'', time_coverage a),
        (''title'', title a)]"

definition update_article ::
  "'st env \<Rightarrow> int \<Rightarrow> pyval \<Rightarrow> article_patch \<Rightarrow> int list option \<Rightarrow> db \<times> 'st
     \<Rightarrow> (py_error + row list) \<times> (db \<times> 'st)" where
  "update_article E article_version_id account_id a categories w =
     (case w of (s, st) \<Rightarrow>
      (let query = update_article_query E s article_version_id account_id a;
           s1 = invalidate ''article'' s;
           s2 = invalidate (str_int article_version_id @ ''_article'') s1
       in (case run_query E query (Some query) (Some (str_int article_version_id @ ''_article'')) (s2, st) of
             (results, w1) \<Rightarrow>
               if results \<noteq> [] \<and> list_arg categories \<noteq> [] then
                 (case delete_article_categories E article_version_id account_id VNone w1 of
                    (deleted, w2) \<Rightarrow>
                      (case for_each (\<lambda>category. insert_article_category E article_version_id category)
                              (list_arg categories) w2 of
                         (Inl e, w3) \<Rightarrow> (Inl e, w3)
                       | (Inr u, w3) \<Rightarrow> (Inr results, w3)))
               else (Inr results, w1))))"

text \<open>The keyword arguments of \<^verbatim>\<open>update_collection\<close> that the template patches.\<close>

record collection_patch =
  c_title :: pyval
  c_description :: pyval
  c_resource_doi :: pyval
  c_resource_title :: pyval
  c_group_id :: pyval
  c_time_coverage :: pyval
  c_publisher :: pyval
  c_language :: pyval
  c_contributors :: pyval
  c_geolocation :: pyval
  c_longitude :: pyval
  c_latitude :: pyval
  c_organizations :: pyval

definition update_collection_query ::
  "'st env \<Rightarrow> db \<Rightarrow> int \<Rightarrow> pyval \<Rightarrow> collection_patch \<Rightarrow> query" where
  "update_collection_query E s collection_version_id account_id c =
     query_from_template s ''update_collection''
       [(''account_id'', account_id),
        (''collection_version_id'', VInt collection_version_id),
        (''contributors'', c_contributors c),
        (''description'', c_description c),
        (''geolocation'', c_geolocation c),
        (''language'', c_language c),
        (''latitude'', c_latitude c),
        (''group_id'', c_group_id c),
        (''longitude'', c_longitude c),
        (''modified_date'', VStr (now E)),
        (''organizations'', c_organizations c),
        (''publisher'', c_publisher c),
        (''resource_doi'', c_resource_doi c),
        (''resource_title'', c_resource_title c),
        (''time_coverage'', c_time_coverage c),
        (''title'', c_title c)]"

definition update_collection ::
  "'st env \<Rightarrow> int \<Rightarrow> pyval \<Rightarrow> collection_patch \<Rightarrow> int list option \<Rightarrow> int list option \<Rightarrow> db \<times> 'st
     \<Rightarrow> (py_error + row list) \<times> (db \<times> 'st)" where
  "update_collection E collection_version_id account_id c articles categories w =
     (case w of (s, st) \<Rightarrow>
      (let query = update_collection_query E s collection_version_id account_id c;
           s1 = invalidate ''collection'' s;
           s2 = invalidate (str_int collection_version_id @ ''_collection'') s1
       in (case run_query E query (Some query)
                  (Some (str_int collection_version_id @ ''_collection'')) (s2, st) of
             (results, w1) \<Rightarrow>
               (case (if results \<noteq> [] \<and> list_arg categories \<noteq> [] then
                        (case delete_collection_categories E collection_version_id account_id VNone w1 of
                           (deleted, w2) \<Rightarrow>
                             for_each (\<lambda>category. insert_collection_category E collection_version_id category)
                               (list_arg categories) w2)
                      else (Inr (), w1)) of
                  (Inl e, w3) \<Rightarrow> (Inl e, w3)
                | (Inr u, w3) \<Rightarrow>
                    (case (if results \<noteq> [] \<and> list_arg articles \<noteq> [] then
                             (case delete_collection_articles E collection_version_id account_id w3 of
                                (deleted, w4) \<Rightarrow>
                                  for_each (\<lambda>article_id. insert_collection_article E
                                              (Some collection_version_id) (Some article_id))
                                    (list_arg articles) w4)
                           else (Inr (), w3)) of
                       (Inl e, w5) \<Rightarrow> (Inl e, w5)
                     | (Inr u', w5) \<Rightarrow> (Inr results, w5))))))"

subsection \<open>Files\<close>

definition no_patch :: article_patch where
  "no_patch =
     \<lparr>title = VNone, description = VNone, resource_doi = VNone, resource_title = VNone,
      license_id = VNone, group_id = VNone, time_coverage = VNone, publisher = VNone,
      language = VNone, mimetype = VNone, contributors = VNone, license_remarks = VNone,
      geolocation = VNone, longitude = VNone, latitude = VNone, data_link = VNone,
      has_linked_file = VNone, derived_from = VNone, same_as = VNone, organizations = VNone,
      defined_type = VNone, defined_type_name = VNone\<rparr>"

definition insert_article_file ::
  "'st env \<Rightarrow> int \<Rightarrow> int \<Rightarrow> db \<times> 'st \<Rightarrow> (py_error + int option) \<times> (db \<times> 'st)" where
  "insert_article_file E article_version_id file_id w =
     (case w of (s, st) \<Rightarrow>
      (case next_id ''article_file'' (ids s) of
         Inl e \<Rightarrow> (Inl e, w)
       | Inr (link_id, g) \<Rightarrow>
           (let link_uri = ROW (''article_file_link_'' @ str_int link_id);
                graph = [(link_uri, RDF_type, VStr (SG ''ArticleFile'')),
                         (link_uri, COL ''id'', VInt link_id),
                         (link_uri, COL ''file_id'', VInt file_id),
                         (link_uri, COL ''article_version_id'', VInt article_version_id)];
                query = InsertGraph (state_graph s) graph
            in (case run_query E query None None (s\<lparr>ids := g\<rparr>, st) of
                  (results, w') \<Rightarrow> (Inr (if results \<noteq> [] then Some link_id else None), w')))))"

text \<open>The keyword arguments of \<^verbatim>\<open>insert_file\<close> that describe the file.\<close>

record file_data =
  f_name :: pyval
  f_size :: pyval
  f_is_link_only :: pyval
  f_download_url :: pyval
  f_supplied_md5 :: pyval
  f_computed_md5 :: pyval
  f_viewer_type :: pyval
  f_preview_state :: pyval
  f_status :: pyval
  f_upload_url :: pyval
  f_upload_token :: pyval

text \<open>
  \<^verbatim>\<open>rdf.add (graph, subject, predicate, value, datatype)\<close> is not part of the sources; the
  triple is written down here with the value it was called with.
\<close>

definition insert_file ::
  "'st env \<Rightarrow> int option \<Rightarrow> file_data \<Rightarrow> int option \<Rightarrow> pyval \<Rightarrow> db \<times> 'st
     \<Rightarrow> (py_error + int option) \<times> (db \<times> 'st)" where
  "insert_file E file_id f article_version_id account_id w =
     (case w of (s, st) \<Rightarrow>
      (case (case file_id of
               None \<Rightarrow> next_id ''file'' (ids s)
             | Some i \<Rightarrow> Inr (i, ids s)) of
         Inl e \<Rightarrow> (Inl e, w)
       | Inr (fid, g) \<Rightarrow>
           (let file_uri = ROW (''file_'' @ str_int fid);
                graph = [(file_uri, RDF_type, VStr (SG ''File'')),
                         (file_uri, COL ''id'', VInt fid),
                         (file_uri, COL ''name'', f_name f),
                         (file_uri, COL ''size'', f_size f),
                         (file_uri, COL ''is_link_only'', f_is_link_only f),
                         (file_uri, COL ''download_url'', f_download_url f),
                         (file_uri, COL ''supplied_md5'', f_supplied_md5 f),
                         (file_uri, COL ''computed_md5'', f_computed_md5 f),
                         (file_uri, COL ''viewer_type'', f_viewer_type f),
                         (file_uri, COL ''preview_state'', f_preview_state f),
                         (file_uri, COL ''status'', f_status f),
                         (file_uri, COL ''upload_url'', f_upload_url f),
                         (file_uri, COL ''upload_token'', f_upload_token f)];
                s1 = invalidate ''article'' (s\<lparr>ids := g\<rparr>);
                query = InsertGraph (state_graph s) graph
            in (case run_query E query None None (s1, st) of
                  (results, w1) \<Rightarrow>
                    if results \<noteq> [] then
                      (case article_version_id of
                         Some av \<Rightarrow>
                           (case (if truthy (f_is_link_only f)
                                  then update_article E av account_id
                                         (no_patch\<lparr>has_linked_file := VBool True\<rparr>) None w1
                                  else (Inr [], w1)) of
                              (Inl e, w2) \<Rightarrow> (Inl e, w2)
                            | (Inr u, w2) \<Rightarrow>
                                (case insert_article_file E av fid w2 of
                                   (Inl e, w3) \<Rightarrow> (Inl e, w3)
                                 | (Inr None, w3) \<Rightarrow> (Inr None, w3)
                                 | (Inr (Some link_id), w3) \<Rightarrow> (Inr (Some fid), w3)))
                       | None \<Rightarrow> (Inr (Some fid), w1))
                    else (Inr None, w1)))))"

subsection \<open>Deleting\<close>

definition delete_article ::
  "'st env \<Rightarrow> int \<Rightarrow> pyval \<Rightarrow> db \<times> 'st \<Rightarrow> row list \<times> (db \<times> 'st)" where
  "delete_article E article_id account_id w =
     (let query = query_from_template (fst w) ''delete_article''
                    [(''account_id'', account_id), (''article_id'', VInt article_id)]
      in (case run_query E query None None w of
            (result, (s, st)) \<Rightarrow>
              (result, (invalidate ''article'' (invalidate (str_int article_id @ ''_article'') s), st))))"

definition delete_collection ::
  "'st env \<Rightarrow> int \<Rightarrow> pyval \<Rightarrow> db \<times> 'st \<Rightarrow> row list \<times> (db \<times> 'st)" where
  "delete_collection E collection_version_id account_id w =
     (let query = query_from_template (fst w) ''delete_collection''
                    [(''account_id'', account_id),
                     (''collection_version_id'', VInt collection_version_id)]
      in run_query E query None None w)"

subsection \<open>Tags\<close>

text \<open>
  \<^verbatim>\<open>self.ids.next_id("{item_type}_tag")\<close>: the argument is a plain string, braces
  included; the next line of the source is an f-string.
\<close>

definition insert_tag ::
  "'st env \<Rightarrow> pyval \<Rightarrow> pyval \<Rightarrow> string \<Rightarrow> db \<times> 'st \<Rightarrow> (py_error + int option) \<times> (db \<times> 'st)" where
  "insert_tag E tag item_id item_type w =
     (case w of (s, st) \<Rightarrow>
      (let prefix = capitalize item_type in
       case next_id ''{item_type}_tag'' (ids s) of
         Inl e \<Rightarrow> (Inl e, w)
       | Inr (tag_id, g) \<Rightarrow>
           (let tag_uri = ROW (item_type @ ''_tag_'' @ str_int tag_id);
                graph = [(tag_uri, RDF_type, VStr (SG (prefix @ ''Tag''))),
                         (tag_uri, COL ''id'', VInt tag_id),
                         (tag_uri, COL (item_type @ ''_version_id''), item_id),
                         (tag_uri, COL ''tag'', tag)];
                query = InsertGraph (state_graph s) graph
            in (case run_query E query None None (s\<lparr>ids := g\<rparr>, st) of
                  (results, w') \<Rightarrow> (Inr (if results \<noteq> [] then Some tag_id else None), w')))))"

section \<open>Filter fragments for \<^verbatim>\<open>search_for\<close>\<close>

text \<open>
  What \<^verbatim>\<open>datasets\<close>, \<^verbatim>\<open>authors\<close> and \<^verbatim>\<open>collections\<close> append to \<^verbatim>\<open>filters\<close> for the
  parameter \<^verbatim>\<open>search_for\<close> (nothing when it is None).
\<close>

definition datasets_search_filter :: "string option \<Rightarrow> string" where
  "datasets_search_filter search_for =
     (case search_for of
        None \<Rightarrow> []
      | Some v \<Rightarrow>
          ''FILTER (CONTAINS(STR(?title),          '' @ [dq] @ v @ [dq] @ '') OR'' @ [nl] @
          ''        CONTAINS(STR(?resource_title), '' @ [dq] @ v @ [dq] @ '') OR'' @ [nl] @
          ''        CONTAINS(STR(?description),    '' @ [dq] @ v @ [dq] @ '') OR'' @ [nl] @
          ''        CONTAINS(STR(?citation),       '' @ [dq] @ v @ [dq] @ ''))'')"

definition authors_search_filter :: "string option \<Rightarrow> string" where
  "authors_search_filter search_for =
     (case search_for of
        None \<Rightarrow> []
      | Some v \<Rightarrow>
          ''FILTER (CONTAINS(STR(?first_name), '' @ [dq] @ v @ [dq] @ '') OR'' @ [nl] @
          ''        CONTAINS(STR(?last_name),  '' @ [dq] @ v @ [dq] @ '') OR'' @ [nl] @
          ''        CONTAINS(STR(?full_name),  '' @ [dq] @ v @ [dq] @ '') OR'' @ [nl] @
          ''        CONTAINS(STR(?orcid_id),   '' @ [dq] @ v @ [dq] @ ''))'')"

definition collections_search_filter :: "string option \<Rightarrow> string" where
  "collections_search_filter search_for =
     (case search_for of
        None \<Rightarrow> []
      | Some v \<Rightarrow>
          ''FILTER (CONTAINS(STR(?title),          '' @ [dq] @ v @ [dq] @ '') OR'' @ [nl] @
          ''        CONTAINS(STR(?resource_title), '' @ [dq] @ v @ [dq] @ '') OR'' @ [nl] @
          ''        CONTAINS(STR(?description),    '' @ [dq] @ v @ [dq] @ '') OR'' @ [nl] @
          ''        CONTAINS(STR(?citation),       '' @ [dq] @ v @ [dq] @ ''))'')"

text \<open>
  The escaping that \<^verbatim>\<open>delete_article_reference\<close> applies to its URL:
  \<^verbatim>\<open>url.replace('"', '\\"')\<close>.
\<close>

definition escape_quotes :: "string \<Rightarrow> string" where
  "escape_quotes s = concat (map (\<lambda>c. if c = dq then [bsl, dq] else [c]) s)"

text \<open>
  The query language reads a string literal from its opening quote to the next quote
  that no backslash precedes. \<open>read_literal\<close> starts after the opening quote and gives
  the characters of the literal; \<open>first_literal\<close> reads the first literal of a text.
\<close>

fun read_literal :: "string \<Rightarrow> string \<Rightarrow> string option" where
  "read_literal acc [] = None"
| "read_literal acc [c] = (if c = dq then Some acc else None)"
| "read_literal acc (c # e # r) =
     (if c = dq then Some acc
      else if c = bsl then read_literal (acc @ [e]) r
      else read_literal (acc @ [c]) (e # r))"

definition first_literal :: "string \<Rightarrow> string option" where
  "first_literal text =
     (case dropWhile (\<lambda>c. c \<noteq> dq) text of [] \<Rightarrow> None | q # rest \<Rightarrow> read_literal [] rest)"

section \<open>A reference store\<close>

text \<open>
  Modelled from the spec: the graph store and the query templates
  (\<^verbatim>\<open>resources/sparql_templates\<close>) are not part of the sources. The store keeps the
  inserted graphs as records. A child record is owned by one version through its version-id
  reference; the delete templates for category links and collection articles remove the
  link records of the given version; an update template patches named fields of the
  parent record and leaves link records alone. The store answers a mutation with one
  plain literal, the status line. Ownership by the account is not modelled. \<open>script\<close>
  is a schedule of canned answers (an outage, an error, the rows of a read), one per
  call, \<open>None\<close> for a call the store answers itself.
\<close>

record store =
  script :: "response option list"
  graphs :: "triple list list"

definition graph_has_type :: "triple list \<Rightarrow> string \<Rightarrow> bool" where
  "graph_has_type g name = (map_of (map snd g) RDF_type = Some (VStr (SG name)))"

definition graph_field :: "triple list \<Rightarrow> string \<Rightarrow> pyval option" where
  "graph_field g name = map_of (map snd g) (COL name)"

definition int_field :: "triple list \<Rightarrow> string \<Rightarrow> int option" where
  "int_field g name = (case graph_field g name of Some (VInt n) \<Rightarrow> Some n | _ \<Rightarrow> None)"

definition is_category_link :: "string \<Rightarrow> int \<Rightarrow> triple list \<Rightarrow> bool" where
  "is_category_link item_type item_id g =
     (graph_has_type g (capitalize item_type @ ''Category'') \<and>
      graph_field g (item_type @ ''_version_id'') = Some (VInt item_id))"

definition is_collection_article :: "int \<Rightarrow> triple list \<Rightarrow> bool" where
  "is_collection_article collection_version_id g =
     (graph_has_type g ''CollectionArticle'' \<and>
      graph_field g ''collection_version_id'' = Some (VInt collection_version_id))"

text \<open>What a read of the categories of a version, or of the articles of a collection, finds.\<close>

definition item_categories :: "store \<Rightarrow> string \<Rightarrow> int \<Rightarrow> int list" where
  "item_categories st item_type item_id =
     List.map_filter (\<lambda>g. int_field g ''category_id'')
       (filter (is_category_link item_type item_id) (graphs st))"

definition collection_articles :: "store \<Rightarrow> int \<Rightarrow> int list" where
  "collection_articles st collection_version_id =
     List.map_filter (\<lambda>g. int_field g ''article_version_id'')
       (filter (is_collection_article collection_version_id) (graphs st))"

definition status :: "string \<Rightarrow> response" where
  "status line = Bindings [[(''callret-0'', Binding ''literal'' None line)]]"

definition store_answer :: "store \<Rightarrow> query \<Rightarrow> response \<times> store" where
  "store_answer st q =
     (case q of
        InsertGraph sg g \<Rightarrow> (status ''Insert into <graph> -- done'', st\<lparr>graphs := graphs st @ [g]\<rparr>)
      | Template name args \<Rightarrow>
          if name = ''delete_item_categories'' then
            (case (map_of args ''item_id'', map_of args ''item_type'') of
               (Some (VInt item_id), Some (VStr item_type)) \<Rightarrow>
                 (status ''Delete from <graph> -- done'',
                  st\<lparr>graphs :=
                     filter (\<lambda>g. \<not> (is_category_link item_type item_id g \<and>
                                      (map_of args ''category_id'' \<in> {None, Some VNone} \<or>
                                       graph_field g ''category_id'' = map_of args ''category_id'')))
                       (graphs st)\<rparr>)
             | _ \<Rightarrow> (QueryBadFormed, st))
          else if name = ''delete_collection_articles'' then
            (case map_of args ''collection_version_id'' of
               Some (VInt cv) \<Rightarrow>
                 (status ''Delete from <graph> -- done'',
                  st\<lparr>graphs := filter (\<lambda>g. \<not> is_collection_article cv g) (graphs st)\<rparr>)
             | _ \<Rightarrow> (QueryBadFormed, st))
          else if name = ''update_article'' \<or> name = ''update_collection'' then
            (status ''Modify <graph> -- done'', st)
          else if name = ''delete_article'' \<or> name = ''delete_collection'' then
            (status ''Delete from <graph> -- done'', st)
          else (Bindings [], st))"

definition ref_query :: "store \<Rightarrow> query \<Rightarrow> response \<times> store" where
  "ref_query st q =
     (case script st of
        Some r # rest \<Rightarrow> (r, st\<lparr>script := rest\<rparr>)
      | _ \<Rightarrow> store_answer (st\<lparr>script := tl (script st)\<rparr>) q)"

text \<open>The store answers the next \<open>n\<close> calls itself.\<close>

definition unscripted :: "nat \<Rightarrow> store \<Rightarrow> bool" where
  "unscripted n st = list_all (\<lambda>r. r = None) (take n (script st))"

text \<open>An environment over the reference store, and the interface as \<^verbatim>\<open>__init__\<close> leaves it.\<close>

text \<open>
  \<^verbatim>\<open>int(float(s))\<close> on a plain decimal literal: white space around it, a sign, digits
  (single underscores between them), a point, digits; the value is cut toward zero. The
  double nearest to a literal of at most 15 digits has the same integer part as the
  literal, so this is what the code computes there; longer literals, exponents,
  \<^verbatim>\<open>inf\<close> and \<^verbatim>\<open>nan\<close> are not among the texts it is used on.
\<close>

definition int_part :: "string \<Rightarrow> py_error + int" where
  "int_part s =
     (let t = strip s;
          (neg, u) = (case t of
                        c # cs \<Rightarrow> if c = CHR ''-'' then (True, cs)
                                  else if c = CHR ''+'' then (False, cs) else (False, t)
                      | [] \<Rightarrow> (False, t));
          whole = takeWhile (\<lambda>c. c \<noteq> CHR ''.'') u;
          frac = drop 1 (dropWhile (\<lambda>c. c \<noteq> CHR ''.'') u);
          point = (dropWhile (\<lambda>c. c \<noteq> CHR ''.'') u \<noteq> [])
      in if whole = [] \<and> frac = [] then Inl ValueError
         else if frac \<noteq> [] \<and> parse_digits 0 False frac = None then Inl ValueError
         else if whole = [] then (if point then Inr 0 else Inl ValueError)
         else (case parse_digits 0 False whole of
                 None \<Rightarrow> Inl ValueError
               | Some n \<Rightarrow> Inr (if neg then - int n else int n)))"

definition ref_env :: "store env" where
  "ref_env =
     \<lparr>store_query = ref_query,
      render = (\<lambda>q. case q of Template name args \<Rightarrow> name | InsertGraph sg g \<Rightarrow> ''INSERT''),
      float_int = int_part,
      err_text = (\<lambda>e. ''error''),
      to_camel = capitalize,
      now = ''2024-01-01 00:00:00'',
      werkzeug_run_main = False\<rparr>"

definition db0 :: db where
  "db0 =
     \<lparr>ids = [(''article'', VInt 0), (''collection'', VInt 0)],
      state_graph = ''https://data.4tu.nl/portal/self-test'',
      privileges = (\<lambda>k. None),
      cache = \<lparr>ready = True, entries = (\<lambda>k. None)\<rparr>,
      sparql_is_up = True,
      log = []\<rparr>"

definition store0 :: store where
  "store0 = \<lparr>script = [], graphs = []\<rparr>"

text \<open>A row of the account query, as the store sends it.\<close>

definition account_row :: "(string \<times> binding) list" where
  "account_row =
     [(''account_id'', Binding ''typed-literal'' (Some (xsd ''integer'')) ''7''),
      (''email'', Binding ''typed-literal'' (Some (xsd ''string'')) ''a@b.nl'')]"

text \<open>
  Two more rows of the account query: one whose identifier is not a number, and one that
  has a \<^verbatim>\<open>may_administer\<close> field of its own.
\<close>

definition account_row_text :: "(string \<times> binding) list" where
  "account_row_text =
     [(''account_id'', Binding ''typed-literal'' (Some (xsd ''string'')) ''x7''),
      (''email'', Binding ''typed-literal'' (Some (xsd ''string'')) ''a@b.nl'')]"

definition account_row_admin :: "(string \<times> binding) list" where
  "account_row_admin =
     [(''account_id'', Binding ''typed-literal'' (Some (xsd ''integer'')) ''7''),
      (''may_administer'', Binding ''typed-literal'' (Some (xsd ''boolean'')) ''1'')]"

text \<open>States for the evaluations below: a cache that holds entries, counters for tags.\<close>

definition db_cached :: db where
  "db_cached =
     db0\<lparr>ids := [(''file'', VInt 0), (''article_file'', VInt 0)],
         cache := \<lparr>ready = True,
                    entries = [(Some ''7_article'', Template ''article'' []) \<mapsto> [RowScalar ''old''],
                               (Some ''5_collection'', Template ''collection'' []) \<mapsto> [RowScalar ''old'']]\<rparr>\<rparr>"

definition plain_file :: file_data where
  "plain_file =
     \<lparr>f_name = VStr ''a.txt'', f_size = VInt 3, f_is_link_only = VBool False,
      f_download_url = VNone, f_supplied_md5 = VNone, f_computed_md5 = VNone,
      f_viewer_type = VNone, f_preview_state = VNone, f_status = VNone,
      f_upload_url = VNone, f_upload_token = VNone\<rparr>"

definition db_tags :: db where
  "db_tags =
     db0\<lparr>ids := [(''article_tag'', VInt 10), (''collection_tag'', VInt 20),
                  (''{item_type}_tag'', VInt 0)]\<rparr>"






text \<open>
  A store in which article version 9 is linked to the categories 1 and 2 and collection
  version 4 holds article version 9, and an interface whose link counters are set.
\<close>

definition store_12 :: store where
  "store_12 =
     \<lparr>script = [],
      graphs =
        [[(ROW ''article_category_link_1'', RDF_type, VStr (SG ''ArticleCategory'')),
          (ROW ''article_category_link_1'', COL ''id'', VInt 1),
          (ROW ''article_category_link_1'', COL ''category_id'', VInt 1),
          (ROW ''article_category_link_1'', COL ''article_version_id'', VInt 9)],
         [(ROW ''article_category_link_2'', RDF_type, VStr (SG ''ArticleCategory'')),
          (ROW ''article_category_link_2'', COL ''id'', VInt 2),
          (ROW ''article_category_link_2'', COL ''category_id'', VInt 2),
          (ROW ''article_category_link_2'', COL ''article_version_id'', VInt 9)],
         [(ROW ''collection_article_1'', RDF_type, VStr (SG ''CollectionArticle'')),
          (ROW ''collection_article_1'', COL ''id'', VInt 1),
          (ROW ''collection_article_1'', COL ''collection_version_id'', VInt 4),
          (ROW ''collection_article_1'', COL ''article_version_id'', VInt 9)]]\<rparr>"

definition db_links :: db where
  "db_links =
     db0\<lparr>ids := [(''article_category'', VInt 2), (''collection_category'', VInt 0),
                  (''collection_article'', VInt 1)]\<rparr>"

definition no_collection_patch :: collection_patch where
  "no_collection_patch =
     \<lparr>c_title = VNone, c_description = VNone, c_resource_doi = VNone,
      c_resource_title = VNone, c_group_id = VNone, c_time_coverage = VNone,
      c_publisher = VNone, c_language = VNone, c_contributors = VNone,
      c_geolocation = VNone, c_longitude = VNone, c_latitude = VNone,
      c_organizations = VNone\<rparr>"



text \<open>Three reads of the licenses while the store is out for the first two.\<close>

definition outage_run :: "(db \<times> store) list" where
  "outage_run =
     run_queries ref_env
       [(Template ''licenses'' [], None, None), (Template ''licenses'' [], None, None),
        (Template ''licenses'' [], None, None)]
       (db0, store0\<lparr>script := [Some URLError, Some URLError, None]\<rparr>)"

section \<open>Properties of the store interface\<close>

lemma msg_not_info:
  "LogInfo (''RDF store: '' @ v) \<noteq> msg_down" "LogInfo (''RDF store: '' @ v) \<noteq> msg_up"
  "LogInfo (''Literal: '' @ v) \<noteq> msg_down" "LogInfo (''Literal: '' @ v) \<noteq> msg_up"
  "LogInfo (''Not a typed-literal: '' @ v) \<noteq> msg_down"
  "LogInfo (''Not a typed-literal: '' @ v) \<noteq> msg_up"
  by (simp_all add: msg_down_def msg_up_def)

lemma normalize_item_quiet:
  "msg_down \<notin> set (fst (normalize_item fl b)) \<and> msg_up \<notin> set (fst (normalize_item fl b))"
proof (cases "b_type b = ''typed-literal''")
  case True
  have "fst (normalize_item fl b) = []"
    unfolding normalize_item_def Let_def using True
    by (simp split: option.split sum.split)
  then show ?thesis by simp
next
  case False
  note nt = False
  show ?thesis
  proof (cases "b_type b = ''literal''")
    case True
    have "fst (normalize_item fl b) = [LogInfo (''RDF store: '' @ b_value b)] \<or>
          fst (normalize_item fl b) = [LogInfo (''Literal: '' @ b_value b)]"
      unfolding normalize_item_def Let_def using nt True by simp
    then show ?thesis using msg_not_info [of "b_value b"] by auto
  next
    case False
    have "fst (normalize_item fl b) = [] \<or>
          fst (normalize_item fl b) = [LogInfo (''Not a typed-literal: '' @ b_type b)]"
      unfolding normalize_item_def Let_def using nt False by simp
    then show ?thesis using msg_not_info [of "b_type b"] by auto
  qed
qed

lemma normalize_items_quiet:
  "msg_down \<notin> set (fst (normalize_items fl acc r)) \<and>
   msg_up \<notin> set (fst (normalize_items fl acc r))"
proof (induction r arbitrary: acc)
  case Nil
  then show ?case by simp
next
  case (Cons a r)
  obtain item b where a: "a = (item, b)" by (cases a)
  obtain l o1 where ni: "normalize_item fl b = (l, o1)" by (cases "normalize_item fl b")
  have q: "msg_down \<notin> set l \<and> msg_up \<notin> set l"
    using normalize_item_quiet [of fl b] ni by simp
  show ?case
  proof (cases o1)
    case (Inl e)
    then show ?thesis using a ni q by simp
  next
    case (Inr x)
    show ?thesis
    proof (cases x)
      case (Inl v)
      obtain l' r' where rest: "normalize_items fl (acc @ [(item, v)]) r = (l', r')"
        by (cases "normalize_items fl (acc @ [(item, v)]) r")
      have "msg_down \<notin> set l' \<and> msg_up \<notin> set l'"
        using Cons.IH [of "acc @ [(item, v)]"] rest by simp
      then show ?thesis using a ni q Inr Inl rest by simp
    next
      case (Inr s)
      then show ?thesis using a ni q \<open>o1 = Inr x\<close> by simp
    qed
  qed
qed

lemma normalize_all_quiet:
  "msg_down \<notin> set (fst (normalize_all fl bs)) \<and> msg_up \<notin> set (fst (normalize_all fl bs))"
proof (induction bs)
  case Nil
  then show ?case by simp
next
  case (Cons b1 bs)
  obtain l o1 where nb: "normalize_binding fl b1 = (l, o1)"
    by (cases "normalize_binding fl b1")
  have q: "msg_down \<notin> set l \<and> msg_up \<notin> set l"
    using normalize_items_quiet [of fl "[]" b1] nb by (simp add: normalize_binding_def)
  obtain l' o2 where na: "normalize_all fl bs = (l', o2)" by (cases "normalize_all fl bs")
  have q': "msg_down \<notin> set l' \<and> msg_up \<notin> set l'" using Cons.IH na by simp
  show ?case using nb na q q' by (auto split: sum.splits)
qed

lemma log_query_quiet: "log_query E q \<noteq> msg_down \<and> log_query E q \<noteq> msg_up"
  by (simp add: log_query_def msg_down_def msg_up_def)

text \<open>
  One call of \<open>run_query\<close> appends to the log. The flag is afterwards what the outcome of
  the call makes of the connection; the appended lines hold the "seems down" error once
  if the flag was up and the store could not be reached, and not at all otherwise, and
  the "up again" line once if the flag was down and the query succeeded, and not at all
  otherwise.
\<close>

lemma run_query_log_step:
  "\<exists>extra. log (fst (snd (run_query E q k p w))) = log (fst w) @ extra \<and>
     sparql_is_up (fst (snd (run_query E q k p w))) =
       connection_after (sparql_is_up (fst w)) (call_outcome E q k p w) \<and>
     count_list extra msg_down =
       (if sparql_is_up (fst w) \<and> call_outcome E q k p w = Unreachable then 1 else 0) \<and>
     count_list extra msg_up =
       (if \<not> sparql_is_up (fst w) \<and> call_outcome E q k p w = Answered then 1 else 0)"
proof -
  obtain s st where w: "w = (s, st)" by (cases w)
  obtain r st' where ex: "store_query E st q = (r, st')" by (cases "store_query E st q")
  show ?thesis
  proof (cases "(case k of None \<Rightarrow> None | Some cks \<Rightarrow> cached_value (cache s) p (make_key cks))")
    case (Some cached)
    then show ?thesis using w by (simp add: run_query_def call_outcome_def)
  next
    case None
    show ?thesis
    proof (cases r)
      case (Bindings bs)
      obtain l o1 where na: "normalize_all (float_int E) bs = (l, o1)"
        by (cases "normalize_all (float_int E) bs")
      have quiet: "count_list l msg_down = 0 \<and> count_list l msg_up = 0"
        using normalize_all_quiet [of "float_int E" bs] na by simp
      show ?thesis
        using w ex None Bindings na quiet log_query_quiet [of E q]
        by (cases o1; cases k)
           (auto simp: run_query_def call_outcome_def add_log_def query_failed_def msg_down_def
              msg_up_def Let_def)
    next
      case URLError
      then show ?thesis
        using w ex None
        by (auto simp: run_query_def call_outcome_def add_log_def msg_down_def msg_up_def)
    next
      case QueryBadFormed
      then show ?thesis
        using w ex None log_query_quiet [of E q]
        by (auto simp: run_query_def call_outcome_def add_log_def msg_down_def msg_up_def)
    next
      case (OtherException err)
      then show ?thesis
        using w ex None log_query_quiet [of E q]
        by (auto simp: run_query_def call_outcome_def add_log_def query_failed_def msg_down_def
            msg_up_def)
    qed
  qed
qed

lemma outages_are_changes:
  "outages up ocs = went_down (up # connection_states up ocs) \<and>
   recoveries up ocs = came_up (up # connection_states up ocs)"
proof (induction ocs arbitrary: up)
  case Nil
  show ?case by simp
next
  case (Cons oc ocs)
  show ?case using Cons.IH [of "connection_after up oc"] by (cases oc; cases up) simp_all
qed

text \<open>
  C6. Over any run of query executions, from any state and against any store: after each
  call the connectivity flag is down if the store could not be reached, up if the query
  succeeded, and unchanged if the value came from the cache or the query failed in
  another way. The lines the run appends to the log contain the "connection seems down"
  error once per outage, that is once for each call that cannot reach the store while the
  flag is up, and not for the failed calls that follow it while the flag is down; they
  contain the "seems up again" line once per recovery, that is once for each successful
  query while the flag is down. These are the numbers of changes of the flag from up to
  down and from down to up.
\<close>

theorem connectivity_transitions_logged_once:
  "\<exists>extra. log (fst (last (w # run_queries E calls w))) = log (fst w) @ extra \<and>
     map (\<lambda>x. sparql_is_up (fst x)) (run_queries E calls w) =
       connection_states (sparql_is_up (fst w)) (run_outcomes E calls w) \<and>
     count_list extra msg_down = outages (sparql_is_up (fst w)) (run_outcomes E calls w) \<and>
     count_list extra msg_up = recoveries (sparql_is_up (fst w)) (run_outcomes E calls w) \<and>
     count_list extra msg_down =
       went_down (map (\<lambda>x. sparql_is_up (fst x)) (w # run_queries E calls w)) \<and>
     count_list extra msg_up =
       came_up (map (\<lambda>x. sparql_is_up (fst x)) (w # run_queries E calls w))"
proof -
  have main: "\<exists>extra. log (fst (last (w # run_queries E calls w))) = log (fst w) @ extra \<and>
     map (\<lambda>x. sparql_is_up (fst x)) (run_queries E calls w) =
       connection_states (sparql_is_up (fst w)) (run_outcomes E calls w) \<and>
     count_list extra msg_down = outages (sparql_is_up (fst w)) (run_outcomes E calls w) \<and>
     count_list extra msg_up = recoveries (sparql_is_up (fst w)) (run_outcomes E calls w)"
  proof (induction calls arbitrary: w)
    case Nil
    show ?case by simp
  next
    case (Cons c calls)
    obtain q k p where c: "c = (q, k, p)" by (cases c)
    define w' where "w' = snd (run_query E q k p w)"
    define oc where "oc = call_outcome E q k p w"
    have unfold: "run_queries E (c # calls) w = w' # run_queries E calls w'"
      "run_outcomes E (c # calls) w = oc # run_outcomes E calls w'"
      by (simp_all add: c w'_def oc_def Let_def)
    obtain e1 where e1: "log (fst w') = log (fst w) @ e1"
      "sparql_is_up (fst w') = connection_after (sparql_is_up (fst w)) oc"
      "count_list e1 msg_down = (if sparql_is_up (fst w) \<and> oc = Unreachable then 1 else 0)"
      "count_list e1 msg_up = (if \<not> sparql_is_up (fst w) \<and> oc = Answered then 1 else 0)"
      using run_query_log_step [of E q k p w] unfolding w'_def oc_def by blast
    obtain e2 where e2: "log (fst (last (w' # run_queries E calls w'))) = log (fst w') @ e2"
      "map (\<lambda>x. sparql_is_up (fst x)) (run_queries E calls w') =
         connection_states (sparql_is_up (fst w')) (run_outcomes E calls w')"
      "count_list e2 msg_down = outages (sparql_is_up (fst w')) (run_outcomes E calls w')"
      "count_list e2 msg_up = recoveries (sparql_is_up (fst w')) (run_outcomes E calls w')"
      using Cons.IH [of w'] by blast
    have "log (fst (last (w # run_queries E (c # calls) w))) = log (fst w) @ (e1 @ e2)"
      using e1(1) e2(1) unfold by simp
    moreover have "map (\<lambda>x. sparql_is_up (fst x)) (run_queries E (c # calls) w) =
        connection_states (sparql_is_up (fst w)) (run_outcomes E (c # calls) w)"
      using e1(2) e2(2) unfold by simp
    moreover have "count_list (e1 @ e2) msg_down =
        outages (sparql_is_up (fst w)) (run_outcomes E (c # calls) w)"
      using e1(2) e1(3) e2(3) unfold by simp
    moreover have "count_list (e1 @ e2) msg_up =
        recoveries (sparql_is_up (fst w)) (run_outcomes E (c # calls) w)"
      using e1(2) e1(4) e2(4) unfold by simp
    ultimately show ?case by blast
  qed
  then obtain extra where x:
    "log (fst (last (w # run_queries E calls w))) = log (fst w) @ extra"
    "map (\<lambda>x. sparql_is_up (fst x)) (run_queries E calls w) =
       connection_states (sparql_is_up (fst w)) (run_outcomes E calls w)"
    "count_list extra msg_down = outages (sparql_is_up (fst w)) (run_outcomes E calls w)"
    "count_list extra msg_up = recoveries (sparql_is_up (fst w)) (run_outcomes E calls w)"
    by blast
  have "count_list extra msg_down =
      went_down (map (\<lambda>x. sparql_is_up (fst x)) (w # run_queries E calls w))"
    using x(2) x(3) outages_are_changes [of "sparql_is_up (fst w)" "run_outcomes E calls w"]
    by simp
  moreover have "count_list extra msg_up =
      came_up (map (\<lambda>x. sparql_is_up (fst x)) (w # run_queries E calls w))"
    using x(2) x(4) outages_are_changes [of "sparql_is_up (fst w)" "run_outcomes E calls w"]
    by simp
  ultimately show ?thesis using x by blast
qed

lemma outage_run_states:
  "run_outcomes ref_env
     [(Template ''licenses'' [], None, None), (Template ''licenses'' [], None, None),
      (Template ''licenses'' [], None, None)]
     (db0, store0\<lparr>script := [Some URLError, Some URLError, None]\<rparr>) =
     [Unreachable, Unreachable, Answered] \<and>
   map (\<lambda>x. sparql_is_up (fst x)) outage_run = [False, False, True] \<and>
   log (fst (last outage_run)) = [msg_down, msg_up]"
  by (simp add: outage_run_def run_query_def call_outcome_def ref_env_def ref_query_def
      store_answer_def store0_def db0_def add_log_def Let_def)

theorem connectivity_transitions_logged_once_witness:
  "run_outcomes ref_env
     [(Template ''licenses'' [], None, None), (Template ''licenses'' [], None, None),
      (Template ''licenses'' [], None, None)]
     (db0, store0\<lparr>script := [Some URLError, Some URLError, None]\<rparr>) =
     [Unreachable, Unreachable, Answered] \<and>
   count_list (log (fst (last outage_run))) msg_down = 1 \<and>
   count_list (log (fst (last outage_run))) msg_up = 1"
  using connectivity_transitions_logged_once [where E = ref_env
      and w = "(db0, store0\<lparr>script := [Some URLError, Some URLError, None]\<rparr>)"
      and calls = "[(Template ''licenses'' [], None, None), (Template ''licenses'' [], None, None),
                    (Template ''licenses'' [], None, None)]"]
    outage_run_states
  by (simp add: outage_run_def [symmetric] msg_down_def msg_up_def)

text \<open>
  C5, as the code has it. When a query is executed (no cached value is returned) and the
  execution fails, by a connectivity failure, a malformed query, any other backend error
  or a raise during normalisation, the call returns the empty list and raises nothing.
  The query text is logged for a malformed query and for any other error. For a
  connectivity failure the query text is not logged: the only line is the "seems down"
  error, written when the flag was up.
\<close>

theorem run_query_failure_degrades:
  assumes miss: "(case k of None \<Rightarrow> None | Some cks \<Rightarrow> cached_value (cache s) p (make_key cks)) = None"
    and answer: "store_query E st q = (r, st')"
    and failed: "r = URLError \<or> r = QueryBadFormed \<or> (\<exists>e. r = OtherException e) \<or>
                 (\<exists>bs e. r = Bindings bs \<and> snd (normalize_all (float_int E) bs) = Inl e)"
  shows "fst (run_query E q k p (s, st)) = [] \<and>
         (r \<noteq> URLError \<longrightarrow> log_query E q \<in> set (log (fst (snd (run_query E q k p (s, st)))))) \<and>
         (r = URLError \<longrightarrow> log (fst (snd (run_query E q k p (s, st)))) =
                              log s @ (if sparql_is_up s then [msg_down] else []))"
proof -
  from failed consider "r = URLError" | "r = QueryBadFormed" | e where "r = OtherException e"
    | bs e where "r = Bindings bs" "snd (normalize_all (float_int E) bs) = Inl e"
    by blast
  then show ?thesis
  proof cases
    case 1
    then show ?thesis using miss answer by (simp add: run_query_def add_log_def)
  next
    case 2
    then show ?thesis using miss answer by (simp add: run_query_def add_log_def)
  next
    case 3
    then show ?thesis using miss answer by (simp add: run_query_def add_log_def query_failed_def)
  next
    case 4
    obtain l where "normalize_all (float_int E) bs = (l, Inl e)"
      using 4(2) by (cases "normalize_all (float_int E) bs") simp
    then show ?thesis using 4(1) miss answer
      by (simp add: run_query_def add_log_def query_failed_def)
  qed
qed

theorem run_query_failure_degrades_witness:
  "fst (run_query ref_env (Template ''licenses'' []) None None
          (db0, store0\<lparr>script := [Some QueryBadFormed]\<rparr>)) = [] \<and>
   log_query ref_env (Template ''licenses'' []) \<in>
     set (log (fst (snd (run_query ref_env (Template ''licenses'' []) None None
                           (db0, store0\<lparr>script := [Some QueryBadFormed]\<rparr>)))))"
  using run_query_failure_degrades [where k = None and s = db0 and p = None and E = ref_env
      and st = "store0\<lparr>script := [Some QueryBadFormed]\<rparr>" and q = "Template ''licenses'' []"
      and r = QueryBadFormed and st' = "store0\<lparr>script := []\<rparr>"]
  by (simp add: ref_env_def ref_query_def store0_def)

text \<open>
  C5 as stated fails for a connectivity failure: the call returns the empty list, and
  the query text is not in the log.
\<close>

theorem connectivity_failure_logs_no_query:
  "fst (run_query ref_env (Template ''licenses'' []) None None
          (db0, store0\<lparr>script := [Some URLError]\<rparr>)) = [] \<and>
   log_query ref_env (Template ''licenses'' []) \<notin>
     set (log (fst (snd (run_query ref_env (Template ''licenses'' []) None None
                           (db0, store0\<lparr>script := [Some URLError]\<rparr>)))))"
  by (simp add: run_query_def ref_env_def ref_query_def store0_def db0_def add_log_def
      msg_down_def log_query_def)

section \<open>Properties of the account lookup\<close>

text \<open>
  C10. Let the query for a session token give the rows \<open>results\<close>. With no row,
  \<^verbatim>\<open>account_by_session_token\<close> returns None, and \<^verbatim>\<open>may_administer\<close> and
  \<^verbatim>\<open>may_impersonate\<close> return False. With a first row that has no \<^verbatim>\<open>account_id\<close>, or whose
  \<^verbatim>\<open>account_id\<close> converts to an integer that has no entry in the privileges mapping, it
  returns the row as it is and raises nothing; \<^verbatim>\<open>may_administer\<close> and \<^verbatim>\<open>may_impersonate\<close>
  then return the row's own \<^verbatim>\<open>may_administer\<close> resp. \<^verbatim>\<open>may_impersonate\<close> field when it has
  one, and False when it has none. When \<^verbatim>\<open>int\<close> raises on the \<^verbatim>\<open>account_id\<close>, the exception
  leaves \<^verbatim>\<open>account_by_session_token\<close>, \<^verbatim>\<open>may_administer\<close> and \<^verbatim>\<open>may_impersonate\<close>.
\<close>

theorem account_lookup_cases:
  assumes run: "run_query E (query_from_template (fst w) ''account_by_session_token''
                               [(''token'', session_token)]) None None w = (results, w')"
  shows "(results = [] \<longrightarrow>
            account_by_session_token E session_token w = (Inr None, w') \<and>
            may_administer E session_token w = (Inr (VBool False), w') \<and>
            may_impersonate E session_token w = (Inr (VBool False), w')) \<and>
         (\<forall>account rest.
            results = RowDict account # rest \<and>
            (map_of account ''account_id'' = None \<or>
             (\<exists>v n. map_of account ''account_id'' = Some v \<and> py_int v = Inr n \<and>
                    privileges (fst w') (VInt n) = None)) \<longrightarrow>
              account_by_session_token E session_token w = (Inr (Some account), w') \<and>
              may_administer E session_token w =
                (Inr (case map_of account ''may_administer'' of
                        None \<Rightarrow> VBool False | Some b \<Rightarrow> b), w') \<and>
              may_impersonate E session_token w =
                (Inr (case map_of account ''may_impersonate'' of
                        None \<Rightarrow> VBool False | Some b \<Rightarrow> b), w')) \<and>
         (\<forall>account rest v e.
            results = RowDict account # rest \<and> map_of account ''account_id'' = Some v \<and>
            py_int v = Inl e \<longrightarrow>
              account_by_session_token E session_token w = (Inl e, w') \<and>
              may_administer E session_token w = (Inl e, w') \<and>
              may_impersonate E session_token w = (Inl e, w'))"
  using run
  by (auto simp: account_by_session_token_def may_administer_def may_impersonate_def
      may_execute_role_def Let_def split: option.splits)

lemma account_row_normalized:
  "run_query ref_env (query_from_template db0 ''account_by_session_token'' [(''token'', VStr ''t'')])
     None None (db0, store0\<lparr>script := [Some (Bindings [account_row])]\<rparr>) =
   ([RowDict [(''account_id'', VInt 7), (''email'', VStr ''a@b.nl'')]], (db0, store0))"
  by (simp add: run_query_def ref_env_def ref_query_def store0_def db0_def add_log_def
      account_row_def normalize_binding_def normalize_item_def xsd_def int_part_def
      strip_def is_space_def digit_val_def Let_def)

theorem account_lookup_cases_witness:
  "account_by_session_token ref_env (VStr ''t'')
     (db0, store0\<lparr>script := [Some (Bindings [account_row])]\<rparr>) =
     (Inr (Some [(''account_id'', VInt 7), (''email'', VStr ''a@b.nl'')]), (db0, store0)) \<and>
   may_administer ref_env (VStr ''t'')
     (db0, store0\<lparr>script := [Some (Bindings [account_row])]\<rparr>) =
     (Inr (VBool False), (db0, store0))"
  using account_lookup_cases [where E = ref_env and session_token = "VStr ''t''"
      and w = "(db0, store0\<lparr>script := [Some (Bindings [account_row])]\<rparr>)"
      and results = "[RowDict [(''account_id'', VInt 7), (''email'', VStr ''a@b.nl'')]]"
      and w' = "(db0, store0)"]
    account_row_normalized
  by (simp add: db0_def)

text \<open>
  The account of the first evaluation has an identifier that is not a number: the
  ValueError of \<^verbatim>\<open>int\<close> leaves \<^verbatim>\<open>account_by_session_token\<close> and \<^verbatim>\<open>may_administer\<close>. The
  account of the second has identifier 7, no entry in the privileges mapping, and a
  \<^verbatim>\<open>may_administer\<close> field of its own: \<^verbatim>\<open>may_administer\<close> returns that field, True.
\<close>

theorem account_lookup_raises_or_grants:
  "fst (account_by_session_token ref_env (VStr ''t'')
          (db0, store0\<lparr>script := [Some (Bindings [account_row_text])]\<rparr>)) = Inl ValueError \<and>
   fst (may_administer ref_env (VStr ''t'')
          (db0, store0\<lparr>script := [Some (Bindings [account_row_text])]\<rparr>)) = Inl ValueError \<and>
   privileges db0 (VInt 7) = None \<and>
   fst (account_by_session_token ref_env (VStr ''t'')
          (db0, store0\<lparr>script := [Some (Bindings [account_row_admin])]\<rparr>)) =
     Inr (Some [(''account_id'', VInt 7), (''may_administer'', VBool True)]) \<and>
   fst (may_administer ref_env (VStr ''t'')
          (db0, store0\<lparr>script := [Some (Bindings [account_row_admin])]\<rparr>)) = Inr (VBool True)"
  by (simp add: account_by_session_token_def may_administer_def may_execute_role_def
      query_from_template_def run_query_def ref_env_def ref_query_def store0_def db0_def
      add_log_def account_row_text_def account_row_admin_def normalize_binding_def
      normalize_item_def xsd_def int_part_def int_of_string_def strip_def is_space_def
      digit_val_def dict_merge_def Let_def)

section \<open>Evaluations of the write operations and of the search filters\<close>

lemma str_nat_digit: "n < 10 \<Longrightarrow> str_nat n = [digit_char n]"
  by (subst str_nat.simps) simp

lemma str_int_small: "str_int 1 = ''1''" "str_int 5 = ''5''" "str_int 7 = ''7''"
  by (simp_all add: str_int_def str_nat_digit digit_char_def)

text \<open>
  C1 at \<^verbatim>\<open>search_for = a"b\<close>. The value is embedded as it is: the first literal of each
  fragment ends at the quote of the value and reads \<^verbatim>\<open>a\<close>. With the escaping that
  \<^verbatim>\<open>delete_article_reference\<close> applies to its URL, the literal would read \<^verbatim>\<open>a"b\<close>.
\<close>

theorem search_for_embedded_unescaped:
  "first_literal (datasets_search_filter (Some (''a'' @ [dq] @ ''b''))) = Some ''a'' \<and>
   first_literal (authors_search_filter (Some (''a'' @ [dq] @ ''b''))) = Some ''a'' \<and>
   first_literal (collections_search_filter (Some (''a'' @ [dq] @ ''b''))) = Some ''a'' \<and>
   take 41 (authors_search_filter (Some (''a'' @ [dq] @ ''b''))) =
     ''FILTER (CONTAINS(STR(?first_name), '' @ [dq] @ ''a'' @ [dq] @ ''b'' @ [dq] @ '')'' \<and>
   first_literal (authors_search_filter (Some (escape_quotes (''a'' @ [dq] @ ''b'')))) =
     Some (''a'' @ [dq] @ ''b'')"
  by (simp add: datasets_search_filter_def authors_search_filter_def
      collections_search_filter_def first_literal_def escape_quotes_def dq_def bsl_def nl_def)

text \<open>
  C2 at a cache that holds an entry under \<^verbatim>\<open>7_article\<close> and one under \<^verbatim>\<open>5_collection\<close>.
  Inserting a file that is no link for article version 7 succeeds and leaves the entry
  under \<^verbatim>\<open>7_article\<close> in the cache; deleting collection version 5 succeeds and leaves
  the entry under \<^verbatim>\<open>5_collection\<close>. \<^verbatim>\<open>delete_article\<close> does remove the entry of its
  version.
\<close>

theorem write_leaves_cached_entry:
  "fst (insert_file ref_env None plain_file (Some 7) (VInt 1) (db_cached, store0)) = Inr (Some 1) \<and>
   cached_value
     (cache (fst (snd (insert_file ref_env None plain_file (Some 7) (VInt 1) (db_cached, store0)))))
     (Some ''7_article'') (Template ''article'' []) = Some [RowScalar ''old''] \<and>
   fst (delete_collection ref_env 5 (VInt 1) (db_cached, store0)) =
     [RowScalar ''Delete from <graph> -- done''] \<and>
   cached_value
     (cache (fst (snd (delete_collection ref_env 5 (VInt 1) (db_cached, store0)))))
     (Some ''5_collection'') (Template ''collection'' []) = Some [RowScalar ''old''] \<and>
   cached_value
     (cache (fst (snd (delete_article ref_env 7 (VInt 1) (db_cached, store0)))))
     (Some ''7_article'') (Template ''article'' []) = None"
  by (simp add: insert_file_def insert_article_file_def delete_collection_def delete_article_def
      run_query_def ref_env_def ref_query_def store_answer_def status_def normalize_binding_def normalize_item_def startswith_def
      query_from_template_def dict_merge_def
      store0_def db_cached_def db0_def plain_file_def add_log_def invalidate_def
      invalidate_by_prefix_def cached_value_def next_id_def str_int_small Let_def)

text \<open>
  C3 at counters \<^verbatim>\<open>article_tag = 10\<close>, \<^verbatim>\<open>collection_tag = 20\<close> and a counter named
  \<^verbatim>\<open>{item_type}_tag\<close> at 0. A tag of an article and a tag of a collection both get the
  identifier 1, from the counter named \<^verbatim>\<open>{item_type}_tag\<close>; the counters of the two
  kinds stay as they were.
\<close>

theorem tags_share_one_counter:
  "fst (insert_tag ref_env (VStr ''x'') (VInt 1) ''article'' (db_tags, store0)) = Inr (Some 1) \<and>
   fst (insert_tag ref_env (VStr ''x'') (VInt 1) ''collection'' (db_tags, store0)) = Inr (Some 1) \<and>
   ids (fst (snd (insert_tag ref_env (VStr ''x'') (VInt 1) ''article'' (db_tags, store0)))) =
     [(''article_tag'', VInt 10), (''collection_tag'', VInt 20), (''{item_type}_tag'', VInt 1)]"
  by (simp add: insert_tag_def run_query_def ref_env_def ref_query_def store_answer_def
      status_def normalize_binding_def normalize_item_def startswith_def store0_def db_tags_def db0_def add_log_def next_id_def Let_def)

section \<open>Properties of the startup\<close>












section \<open>Properties of the updates, against the reference store\<close>

lemma ref_query_unscripted:
  "unscripted (Suc m) st \<Longrightarrow> ref_query st q = store_answer (st\<lparr>script := tl (script st)\<rparr>) q"
  by (cases "script st") (auto simp: unscripted_def ref_query_def split: option.splits)

lemma unscripted_tl:
  "unscripted (Suc m) st \<Longrightarrow> unscripted m (st\<lparr>script := tl (script st), graphs := g\<rparr>)"
  by (cases "script st") (auto simp: unscripted_def)

lemma unscripted_tl':
  "unscripted (Suc m) st \<Longrightarrow> unscripted m (st\<lparr>script := tl (script st)\<rparr>)"
  by (cases "script st") (auto simp: unscripted_def)

lemma run_query_status:
  assumes "store_query E st q = (status line, st')"
  shows "fst (run_query E q None None (s, st)) = [RowScalar line] \<and>
         snd (snd (run_query E q None None (s, st))) = st' \<and>
         ids (fst (snd (run_query E q None None (s, st)))) = ids s"
  using assms
  by (simp add: run_query_def status_def normalize_binding_def normalize_item_def add_log_def
      Let_def)

lemma run_query_status_cached:
  assumes "store_query E st q = (status line, st')"
    and "cached_value (cache s) p (make_key k) = None"
  shows "fst (run_query E q (Some k) p (s, st)) = [RowScalar line] \<and>
         snd (snd (run_query E q (Some k) p (s, st))) = st' \<and>
         ids (fst (snd (run_query E q (Some k) p (s, st)))) = ids s"
  using assms
  by (simp add: run_query_def status_def normalize_binding_def normalize_item_def add_log_def
      Let_def)

lemma invalidated_miss: "cached_value (cache (invalidate pre s)) (Some pre) k = None"
  by (simp add: invalidate_def invalidate_by_prefix_def cached_value_def)

lemma invalidate_ids: "ids (invalidate pre s) = ids s"
  by (simp add: invalidate_def)

text \<open>The record of a link between article version \<open>v\<close> and category \<open>c\<close>.\<close>

lemma article_link_is_link:
  "is_category_link ''article'' v
     [(u, RDF_type, VStr (SG (capitalize ''article'' @ ''Category''))), (u, COL ''id'', VInt l),
      (u, COL ''category_id'', VInt c), (u, COL (''article'' @ ''_version_id''), VInt v)] \<and>
   int_field
     [(u, RDF_type, VStr (SG (capitalize ''article'' @ ''Category''))), (u, COL ''id'', VInt l),
      (u, COL ''category_id'', VInt c), (u, COL (''article'' @ ''_version_id''), VInt v)]
     ''category_id'' = Some c"
  by (simp add: is_category_link_def graph_has_type_def graph_field_def int_field_def
      RDF_type_def COL_def)

lemma insert_article_category_ref:
  assumes E: "store_query E = ref_query"
    and n: "map_of (ids s) ''article_category'' = Some (VInt n)"
    and u: "unscripted (Suc m) st"
  shows "fst (insert_article_category E v c (s, st)) = Inr (Some (n + 1)) \<and>
         map_of (ids (fst (snd (insert_article_category E v c (s, st))))) ''article_category'' =
           Some (VInt (n + 1)) \<and>
         script (snd (snd (insert_article_category E v c (s, st)))) = tl (script st) \<and>
         item_categories (snd (snd (insert_article_category E v c (s, st)))) ''article'' v =
           item_categories st ''article'' v @ [c]"
proof -
  define l where "l = n + 1"
  define u' where "u' = ROW (''article'' @ ''_category_link_'' @ str_int l)"
  define g where "g = [(u', RDF_type, VStr (SG (capitalize ''article'' @ ''Category''))),
      (u', COL ''id'', VInt l), (u', COL ''category_id'', VInt c),
      (u', COL (''article'' @ ''_version_id''), VInt v)]"
  define s1 where "s1 = s\<lparr>ids := AList.update ''article_category'' (VInt l) (ids s)\<rparr>"
  define q where "q = InsertGraph (state_graph s) g"
  have ans: "store_query E st q =
      (status ''Insert into <graph> -- done'',
       st\<lparr>script := tl (script st), graphs := graphs st @ [g]\<rparr>)"
    using E ref_query_unscripted [OF u, of q] by (simp add: store_answer_def q_def)
  have unfold: "insert_article_category E v c (s, st) =
      (case run_query E q None None (s1, st) of
         (results, w') \<Rightarrow> (Inr (if results \<noteq> [] then Some (n + 1) else None), w'))"
    using n
    by (simp add: insert_article_category_def insert_item_category_def next_id_def Let_def
        l_def u'_def g_def s1_def q_def)
  obtain rs s' st' where rq: "run_query E q None None (s1, st) = (rs, (s', st'))"
    by (cases "run_query E q None None (s1, st)") auto
  have rs: "rs = [RowScalar ''Insert into <graph> -- done'']"
    and st': "st' = st\<lparr>script := tl (script st), graphs := graphs st @ [g]\<rparr>"
    and ids': "ids s' = ids s1"
    using run_query_status [OF ans, of s1] rq by simp_all
  have link: "is_category_link ''article'' v g \<and> int_field g ''category_id'' = Some c"
    unfolding g_def by (rule article_link_is_link)
  have cats: "item_categories st' ''article'' v = item_categories st ''article'' v @ [c]"
    using link by (simp add: st' item_categories_def List.map_filter_def)
  show ?thesis
    using unfold rq rs st' ids' cats
    by (simp add: s1_def l_def update_conv')
qed

lemma insert_categories_ref:
  assumes E: "store_query E = ref_query"
  shows "map_of (ids s) ''article_category'' = Some (VInt n) \<Longrightarrow>
         unscripted (length cats) st \<Longrightarrow>
         fst (for_each (\<lambda>category. insert_article_category E v category) cats (s, st)) = Inr () \<and>
         item_categories
           (snd (snd (for_each (\<lambda>category. insert_article_category E v category) cats (s, st))))
           ''article'' v = item_categories st ''article'' v @ cats"
proof (induction cats arbitrary: s st n)
  case Nil
  show ?case by simp
next
  case (Cons c cats)
  have u: "unscripted (Suc (length cats)) st" using Cons.prems(2) by simp
  obtain r s' st' where i: "insert_article_category E v c (s, st) = (r, (s', st'))"
    by (cases "insert_article_category E v c (s, st)") auto
  have r: "r = Inr (Some (n + 1))"
    and n': "map_of (ids s') ''article_category'' = Some (VInt (n + 1))"
    and sc: "script st' = tl (script st)"
    and ic: "item_categories st' ''article'' v = item_categories st ''article'' v @ [c]"
    using insert_article_category_ref [OF E Cons.prems(1) u, of v c] i by simp_all
  have u': "unscripted (length cats) st'"
    using unscripted_tl' [OF u] sc by (simp add: unscripted_def)
  show ?case
    using i r ic Cons.IH [OF n' u'] by simp
qed

lemma delete_article_categories_ref:
  assumes E: "store_query E = ref_query" and u: "unscripted (Suc m) st"
  shows "ids (fst (snd (delete_article_categories E v acc VNone (s, st)))) = ids s \<and>
         script (snd (snd (delete_article_categories E v acc VNone (s, st)))) = tl (script st) \<and>
         item_categories (snd (snd (delete_article_categories E v acc VNone (s, st))))
           ''article'' v = []"
proof -
  define q where "q = query_from_template s ''delete_item_categories''
      [(''item_id'', VInt v), (''item_type'', VStr ''article''),
       (''prefix'', VStr (capitalize ''article'')), (''account_id'', acc),
       (''category_id'', VNone)]"
  define st' where "st' = st\<lparr>script := tl (script st),
      graphs := filter (\<lambda>g. \<not> is_category_link ''article'' v g) (graphs st)\<rparr>"
  have ans: "store_query E st q = (status ''Delete from <graph> -- done'', st')"
    using E ref_query_unscripted [OF u, of q]
    by (simp add: store_answer_def q_def st'_def query_from_template_def dict_merge_def)
  have unfold: "delete_article_categories E v acc VNone (s, st) = run_query E q None None (s, st)"
    by (simp add: delete_article_categories_def delete_item_categories_def q_def Let_def)
  have "item_categories st' ''article'' v = []"
    by (simp add: st'_def item_categories_def List.map_filter_def)
  then show ?thesis
    using unfold run_query_status [OF ans, of s] by (simp add: st'_def)
qed

lemma run_query_ids: "ids (fst (snd (run_query E q k p (s, st)))) = ids s"
proof -
  obtain r st' where ex: "store_query E st q = (r, st')" by (cases "store_query E st q")
  show ?thesis
    using ex
    by (cases r)
       (auto simp: run_query_def add_log_def query_failed_def Let_def
             split: option.splits prod.splits sum.splits)
qed

lemma run_query_miss:
  assumes "k = None \<or> cached_value (cache s) p (make_key (the k)) = None"
  shows "snd (snd (run_query E q k p (s, st))) = snd (store_query E st q)"
proof -
  obtain r st' where ex: "store_query E st q = (r, st')" by (cases "store_query E st q")
  show ?thesis
    using ex assms
    by (cases r)
       (auto simp: run_query_def Let_def split: option.splits prod.splits sum.splits)
qed

lemma store_answer_script: "script (snd (store_answer st q)) = script st"
  by (auto simp: store_answer_def split: query.splits option.splits pyval.splits)

lemma ref_query_script: "script (snd (ref_query st q)) = tl (script st)"
  by (cases "script st") (auto simp: ref_query_def store_answer_script split: option.splits)

lemma insert_article_category_unset:
  assumes "\<And>n. map_of (ids s) ''article_category'' \<noteq> Some (VInt n)"
  shows "fst (insert_article_category E v c (s, st)) = Inl TypeError"
  using assms
  by (auto simp: insert_article_category_def insert_item_category_def next_id_def Let_def
      split: option.splits pyval.splits)

lemma insert_categories_done:
  assumes E: "store_query E = ref_query"
  shows "unscripted (length cats) st \<Longrightarrow>
         fst (for_each (\<lambda>category. insert_article_category E v category) cats (s, st)) = Inr u \<Longrightarrow>
         item_categories
           (snd (snd (for_each (\<lambda>category. insert_article_category E v category) cats (s, st))))
           ''article'' v = item_categories st ''article'' v @ cats"
proof (induction cats arbitrary: s st)
  case Nil
  show ?case by simp
next
  case (Cons c cats)
  have u: "unscripted (Suc (length cats)) st" using Cons.prems(1) by simp
  obtain r s' st' where i: "insert_article_category E v c (s, st) = (r, (s', st'))"
    by (cases "insert_article_category E v c (s, st)") auto
  have set: "\<exists>n. map_of (ids s) ''article_category'' = Some (VInt n)"
  proof (rule ccontr)
    assume "\<not> (\<exists>n. map_of (ids s) ''article_category'' = Some (VInt n))"
    then have "fst (insert_article_category E v c (s, st)) = Inl TypeError"
      using insert_article_category_unset [of s E v c st] by simp
    then show False using Cons.prems(2) i by simp
  qed
  then obtain n where n: "map_of (ids s) ''article_category'' = Some (VInt n)" by auto
  have r: "r = Inr (Some (n + 1))"
    and sc: "script st' = tl (script st)"
    and ic: "item_categories st' ''article'' v = item_categories st ''article'' v @ [c]"
    using insert_article_category_ref [OF E n u, of v c] i by simp_all
  have u': "unscripted (length cats) st'"
    using unscripted_tl' [OF u] sc by (simp add: unscripted_def)
  have ok: "fst (for_each (\<lambda>category. insert_article_category E v category) cats (s', st')) = Inr u"
    using Cons.prems(2) i r by simp
  show ?case
    using i r ic Cons.IH [OF u' ok] by simp
qed

text \<open>
  C8. \<^verbatim>\<open>update_article\<close> with a non-empty list of categories. When the call returns a
  non-empty result (the update has been answered) and the store carries out the two
  kinds of statement that follow, the delete and one insert per listed category (it
  answers these calls itself, none is lost to an outage), the category links of the
  version are afterwards exactly the listed categories, in the order of the list: every
  former link of the version is gone and one link per listed category is there. Nothing
  is assumed of the counter for category links: a call that returns has found it set. And
  the call does return a non-empty result when the store also carries out the update and
  the counter is set.
\<close>

theorem update_article_replaces_categories:
  assumes E: "store_query E = ref_query"
    and cats: "categories \<noteq> []"
  shows "(\<forall>results.
            fst (update_article E v acc a (Some categories) (s, st)) = Inr results \<and>
            results \<noteq> [] \<and>
            unscripted (Suc (length categories)) (st\<lparr>script := tl (script st)\<rparr>) \<longrightarrow>
              item_categories (snd (snd (update_article E v acc a (Some categories) (s, st))))
                ''article'' v = categories) \<and>
         (\<forall>n. unscripted (length categories + 2) st \<and>
              map_of (ids s) ''article_category'' = Some (VInt n) \<longrightarrow>
                (\<exists>results. fst (update_article E v acc a (Some categories) (s, st)) = Inr results \<and>
                           results \<noteq> []))"
proof -
  define pre where "pre = str_int v @ ''_article''"
  define q where "q = update_article_query E s v acc a"
  define s2 where "s2 = invalidate pre (invalidate ''article'' s)"
  obtain rs s3 st3 where rq: "run_query E q (Some q) (Some pre) (s2, st) = (rs, (s3, st3))"
    by (cases "run_query E q (Some q) (Some pre) (s2, st)") auto
  have miss: "cached_value (cache s2) (Some pre) (make_key q) = None"
    unfolding s2_def by (rule invalidated_miss)
  have st3: "st3 = snd (ref_query st q)"
    using run_query_miss [of "Some q" s2 "Some pre" E q st] miss rq E by simp
  have sc3: "script st3 = tl (script st)"
    unfolding st3 by (rule ref_query_script)
  have ids3: "ids s3 = ids s"
    using run_query_ids [of E q "Some q" "Some pre" s2 st] rq by (simp add: s2_def invalidate_ids)
  obtain d s4 st4 where del: "delete_article_categories E v acc VNone (s3, st3) = (d, (s4, st4))"
    by (cases "delete_article_categories E v acc VNone (s3, st3)") auto
  obtain r s5 st5 where
    fe: "for_each (\<lambda>category. insert_article_category E v category) categories (s4, st4) =
           (r, (s5, st5))"
    by (cases "for_each (\<lambda>category. insert_article_category E v category) categories (s4, st4)")
      auto
  have unfold: "update_article E v acc a (Some categories) (s, st) =
      (if rs \<noteq> [] then (case r of Inl e \<Rightarrow> (Inl e, (s5, st5)) | Inr u \<Rightarrow> (Inr rs, (s5, st5)))
       else (Inr rs, (s3, st3)))"
    using rq cats del fe
    by (simp add: update_article_def Let_def list_arg_def q_def [symmetric] pre_def [symmetric]
        s2_def [symmetric] split: sum.splits)
  have first: "item_categories (snd (snd (update_article E v acc a (Some categories) (s, st))))
      ''article'' v = categories"
    if ok: "fst (update_article E v acc a (Some categories) (s, st)) = Inr results"
      and ne: "results \<noteq> []"
      and u: "unscripted (Suc (length categories)) (st\<lparr>script := tl (script st)\<rparr>)"
    for results
  proof -
    have rs: "rs \<noteq> []" using ok ne unfold by (auto split: if_splits sum.splits)
    obtain x where r: "r = Inr x" using ok unfold rs by (cases r) auto
    have u3: "unscripted (Suc (length categories)) st3"
      using u sc3 by (simp add: unscripted_def)
    have sc4: "script st4 = tl (script st3)"
      and none: "item_categories st4 ''article'' v = []"
      using delete_article_categories_ref [OF E u3, of v acc s3] del by simp_all
    have u4: "unscripted (length categories) st4"
      using unscripted_tl' [OF u3] sc4 by (simp add: unscripted_def)
    have "item_categories st5 ''article'' v = categories"
      using insert_categories_done [OF E u4, of v s4 x] fe r none by simp
    then show ?thesis using unfold rs r by simp
  qed
  have second: "\<exists>results. fst (update_article E v acc a (Some categories) (s, st)) = Inr results \<and>
      results \<noteq> []"
    if u: "unscripted (length categories + 2) st"
      and n: "map_of (ids s) ''article_category'' = Some (VInt n)"
    for n
  proof -
    have u0: "unscripted (Suc (Suc (length categories))) st" using u by simp
    have ans: "store_query E st q = (status ''Modify <graph> -- done'', st\<lparr>script := tl (script st)\<rparr>)"
      using E ref_query_unscripted [OF u0, of q]
      by (simp add: store_answer_def q_def update_article_query_def query_from_template_def)
    have rs: "rs = [RowScalar ''Modify <graph> -- done'']"
      using run_query_status_cached [OF ans miss] rq by simp
    have u3: "unscripted (Suc (length categories)) st3"
      using unscripted_tl' [OF u0] sc3 by (simp add: unscripted_def)
    have ids4: "ids s4 = ids s" and sc4: "script st4 = tl (script st3)"
      using delete_article_categories_ref [OF E u3, of v acc s3] del ids3 by simp_all
    have u4: "unscripted (length categories) st4"
      using unscripted_tl' [OF u3] sc4 by (simp add: unscripted_def)
    have n4: "map_of (ids s4) ''article_category'' = Some (VInt n)" using n ids4 by simp
    have r: "r = Inr ()"
      using insert_categories_ref [OF E n4 u4, of v] fe by simp
    show ?thesis using unfold rs r by simp
  qed
  show ?thesis using first second by blast
qed

lemma store_12_links:
  "item_categories store_12 ''article'' 9 = [1, 2] \<and> collection_articles store_12 4 = [9]"
  by (simp add: store_12_def item_categories_def collection_articles_def List.map_filter_def
      is_category_link_def is_collection_article_def graph_has_type_def graph_field_def
      int_field_def RDF_type_def COL_def SG_def capitalize_def to_upper_def to_lower_def
      small_letters_def capital_letters_def)

theorem update_article_replaces_categories_witness:
  "item_categories store_12 ''article'' 9 = [1, 2] \<and>
   item_categories
     (snd (snd (update_article ref_env 9 (VInt 1) no_patch (Some [3]) (db_links, store_12))))
     ''article'' 9 = [3]"
  using update_article_replaces_categories [where E = ref_env and categories = "[3]"
      and s = db_links and st = store_12 and v = 9 and acc = "VInt 1" and a = no_patch]
    store_12_links
  by (auto simp: ref_env_def db_links_def db0_def unscripted_def store_12_def)

text \<open>
  Article version 9 has the categories 1 and 2; the update to the list [3] is answered,
  the delete that follows is lost to an outage, the insert is carried out.
  \<^verbatim>\<open>update_article\<close> returns the non-empty result of the update, and the version then has
  the categories 1, 2 and 3: \<^verbatim>\<open>update_article\<close> does not look at what the delete returns.
\<close>

theorem lost_delete_keeps_old_categories:
  "fst (update_article ref_env 9 (VInt 1) no_patch (Some [3])
          (db_links, store_12\<lparr>script := [None, Some URLError, None]\<rparr>)) =
     Inr [RowScalar ''Modify <graph> -- done''] \<and>
   item_categories
     (snd (snd (update_article ref_env 9 (VInt 1) no_patch (Some [3])
                  (db_links, store_12\<lparr>script := [None, Some URLError, None]\<rparr>))))
     ''article'' 9 = [1, 2, 3]"
  by (simp add: update_article_def update_article_query_def delete_article_categories_def
      delete_item_categories_def insert_article_category_def insert_item_category_def
      run_query_def ref_env_def ref_query_def store_answer_def status_def normalize_binding_def
      normalize_item_def startswith_def query_from_template_def dict_merge_def list_arg_def
      store_12_def db_links_def db0_def add_log_def invalidate_def invalidate_by_prefix_def
      cached_value_def cache_value_def make_key_def next_id_def str_int_small Let_def
      item_categories_def List.map_filter_def
      is_category_link_def graph_has_type_def graph_field_def
      int_field_def RDF_type_def COL_def SG_def ROW_def capitalize_def to_upper_def to_lower_def
      small_letters_def capital_letters_def)

subsection \<open>What a call leaves unchanged\<close>

lemma run_query_store:
  "snd (snd (run_query E q k p (s, st))) = st \<or>
   snd (snd (run_query E q k p (s, st))) = snd (store_query E st q)"
proof -
  obtain r st' where ex: "store_query E st q = (r, st')" by (cases "store_query E st q")
  show ?thesis
    using ex
    by (cases r)
       (auto simp: run_query_def Let_def split: option.splits prod.splits sum.splits)
qed

lemma run_query_keeps:
  assumes "store_query E = ref_query" and "\<And>st. F (snd (ref_query st q)) = F st"
  shows "F (snd (snd (run_query E q k p (s, st)))) = F st"
  using run_query_store [of E q k p s st] assms by auto

lemma for_each_keeps:
  assumes "\<And>x w. F (snd (snd (f x w))) = F (snd w)"
  shows "F (snd (snd (for_each f xs w))) = F (snd w)"
proof (induction xs arbitrary: w)
  case Nil
  show ?case by simp
next
  case (Cons x xs)
  obtain r w' where f: "f x w = (r, w')" by (cases "f x w")
  have "F (snd w') = F (snd w)" using assms [of x w] f by simp
  then show ?case using f Cons.IH [of w'] by (cases r) simp_all
qed

lemma category_is_not_article: "x @ ''Category'' \<noteq> ''CollectionArticle''"
proof
  assume "x @ ''Category'' = ''CollectionArticle''"
  then have "last (x @ ''Category'') = last ''CollectionArticle''" by simp
  then show False by simp
qed

lemma link_kinds_disjoint: "is_category_link t i g \<Longrightarrow> \<not> is_collection_article cv g"
  using category_is_not_article
  by (auto simp: is_category_link_def is_collection_article_def graph_has_type_def SG_def)

lemma ref_query_graphs:
  "graphs (snd (ref_query st q)) = graphs st \<or>
   graphs (snd (ref_query st q)) = graphs (snd (store_answer (st\<lparr>script := tl (script st)\<rparr>) q))"
  by (cases "script st") (auto simp: ref_query_def split: option.splits)

text \<open>An update template leaves every record of the store as it is.\<close>

lemma update_keeps_graphs:
  assumes "name = ''update_article'' \<or> name = ''update_collection''"
  shows "graphs (snd (ref_query st (Template name args))) = graphs st"
  using ref_query_graphs [of st "Template name args"] assms
  by (auto simp: store_answer_def)

text \<open>Statements on collection articles leave the category links as they are.\<close>

lemma filter_keeps: "(\<And>g. P g \<Longrightarrow> R g) \<Longrightarrow> filter P (filter R gs) = filter P gs"
  by (induction gs) auto

lemma delete_articles_keeps_categories:
  "item_categories (snd (ref_query st (Template ''delete_collection_articles'' args))) t i =
   item_categories st t i"
proof -
  have "filter (is_category_link t i)
          (graphs (snd (store_answer st0 (Template ''delete_collection_articles'' args)))) =
        filter (is_category_link t i) (graphs st0)" for st0
    by (auto simp: store_answer_def split: option.splits pyval.splits simp del: filter_filter
        intro!: filter_keeps dest: link_kinds_disjoint)
  from this [of "st\<lparr>script := tl (script st)\<rparr>"] show ?thesis
    using ref_query_graphs [of st "Template ''delete_collection_articles'' args"]
    by (auto simp: item_categories_def)
qed

lemma insert_article_link_keeps_categories:
  assumes "map_of (map snd g) RDF_type = Some (VStr (SG ''CollectionArticle''))"
  shows "item_categories (snd (ref_query st (InsertGraph sg g))) t i = item_categories st t i"
proof -
  have "\<not> is_category_link t i g"
    using assms link_kinds_disjoint [of t i g]
    by (auto simp: is_collection_article_def graph_has_type_def is_category_link_def SG_def
        dest: category_is_not_article [THEN notE])
  then show ?thesis
    using ref_query_graphs [of st "InsertGraph sg g"]
    by (auto simp: store_answer_def item_categories_def)
qed

text \<open>Statements on category links leave the collection articles as they are.\<close>

lemma delete_categories_keeps_articles:
  "collection_articles (snd (ref_query st (Template ''delete_item_categories'' args))) cv =
   collection_articles st cv"
proof -
  have "filter (is_collection_article cv)
          (graphs (snd (store_answer st0 (Template ''delete_item_categories'' args)))) =
        filter (is_collection_article cv) (graphs st0)" for st0
    by (auto simp: store_answer_def split: option.splits pyval.splits simp del: filter_filter
        intro!: filter_keeps dest: link_kinds_disjoint)
  from this [of "st\<lparr>script := tl (script st)\<rparr>"] show ?thesis
    using ref_query_graphs [of st "Template ''delete_item_categories'' args"]
    by (auto simp: collection_articles_def)
qed

lemma insert_category_link_keeps_articles:
  assumes "map_of (map snd g) RDF_type = Some (VStr (SG (x @ ''Category'')))"
  shows "collection_articles (snd (ref_query st (InsertGraph sg g))) cv = collection_articles st cv"
proof -
  have "\<not> is_collection_article cv g"
    using assms category_is_not_article [of x]
    by (auto simp: is_collection_article_def graph_has_type_def SG_def)
  then show ?thesis
    using ref_query_graphs [of st "InsertGraph sg g"]
    by (auto simp: store_answer_def collection_articles_def)
qed

lemma update_query_keeps_graphs:
  assumes E: "store_query E = ref_query"
    and name: "name = ''update_article'' \<or> name = ''update_collection''"
  shows "graphs (snd (snd (run_query E (query_from_template s0 name args) k p (s, st)))) = graphs st"
  using run_query_keeps [OF E, of graphs "query_from_template s0 name args" k p s st]
    update_keeps_graphs [OF name]
  by (simp add: query_from_template_def)

lemma delete_collection_articles_keeps:
  assumes E: "store_query E = ref_query"
  shows "item_categories (snd (snd (delete_collection_articles E cv acc w))) t i =
         item_categories (snd w) t i"
proof -
  obtain s st where w: "w = (s, st)" by (cases w)
  show ?thesis
    using run_query_keeps [OF E, of "\<lambda>x. item_categories x t i" _ None None s st]
      delete_articles_keeps_categories
    by (simp add: w delete_collection_articles_def query_from_template_def Let_def)
qed

lemma insert_collection_article_keeps:
  assumes E: "store_query E = ref_query"
  shows "item_categories (snd (snd (insert_collection_article E cv av w))) t i =
         item_categories (snd w) t i"
proof -
  obtain s st where w: "w = (s, st)" by (cases w)
  have k0: "item_categories (snd (snd (run_query E (InsertGraph sg
             ((u, RDF_type, VStr (SG ''CollectionArticle'')) # g)) None None (s1, st)))) t i =
           item_categories st t i" for sg u g s1
    using run_query_keeps [OF E, of "\<lambda>x. item_categories x t i" _ None None s1 st]
      insert_article_link_keeps_categories by simp
  have k: "run_query E (InsertGraph sg
             ((u, RDF_type, VStr (SG ''CollectionArticle'')) # g)) None None (s1, st) =
             (rs, (s', st')) \<Longrightarrow>
           item_categories st' t i = item_categories st t i" for sg u g s1 rs s' st'
    using k0 [of sg u g s1] by simp
  show ?thesis
    by (auto simp: w insert_collection_article_def Let_def
        split: option.splits sum.splits prod.splits dest: k)
qed

lemma delete_collection_categories_keeps:
  assumes E: "store_query E = ref_query"
  shows "collection_articles (snd (snd (delete_collection_categories E cv acc cat w))) i =
         collection_articles (snd w) i"
proof -
  obtain s st where w: "w = (s, st)" by (cases w)
  show ?thesis
    using run_query_keeps [OF E, of "\<lambda>x. collection_articles x i" _ None None s st]
      delete_categories_keeps_articles
    by (simp add: w delete_collection_categories_def delete_item_categories_def
        query_from_template_def Let_def)
qed

lemma insert_collection_category_keeps:
  assumes E: "store_query E = ref_query"
  shows "collection_articles (snd (snd (insert_collection_category E cv cat w))) i =
         collection_articles (snd w) i"
proof -
  obtain s st where w: "w = (s, st)" by (cases w)
  have k0: "collection_articles (snd (snd (run_query E (InsertGraph sg
             ((u, RDF_type, VStr (SG (x @ ''Category''))) # g)) None None (s1, st)))) i =
           collection_articles st i" for sg u x g s1
    using run_query_keeps [OF E, of "\<lambda>x. collection_articles x i" _ None None s1 st]
      insert_category_link_keeps_articles by simp
  have k: "run_query E (InsertGraph sg
             ((u, RDF_type, VStr (SG (x @ ''Category''))) # g)) None None (s1, st) =
             (rs, (s', st')) \<Longrightarrow>
           collection_articles st' i = collection_articles st i" for sg u x g s1 rs s' st'
    using k0 [of sg u x g s1] by simp
  show ?thesis
    by (auto simp: w insert_collection_category_def insert_item_category_def Let_def
        split: option.splits sum.splits prod.splits dest: k)
qed

text \<open>
  C9. \<^verbatim>\<open>update_article\<close> and \<^verbatim>\<open>update_collection\<close> delete and re-insert links only
  when the update gave a result and the list is not empty. With no categories (None or
  the empty list), or when the update gave no result, \<^verbatim>\<open>update_article\<close> leaves every
  record of the store as it was, and \<^verbatim>\<open>update_collection\<close> leaves the category links of
  every version as they were; with no articles, or no result, \<^verbatim>\<open>update_collection\<close>
  leaves the articles of every collection as they were.
\<close>

theorem update_without_list_keeps_links:
  assumes E: "store_query E = ref_query"
  shows "(list_arg categories = [] \<or>
            fst (update_article E v acc a categories (s, st)) = Inr [] \<longrightarrow>
            graphs (snd (snd (update_article E v acc a categories (s, st)))) = graphs st) \<and>
         (list_arg categories' = [] \<or>
            fst (update_collection E cv acc c articles categories' (s, st)) = Inr [] \<longrightarrow>
            (\<forall>t i. item_categories
                     (snd (snd (update_collection E cv acc c articles categories' (s, st)))) t i =
                   item_categories st t i)) \<and>
         (list_arg articles = [] \<or>
            fst (update_collection E cv acc c articles categories' (s, st)) = Inr [] \<longrightarrow>
            (\<forall>i. collection_articles
                   (snd (snd (update_collection E cv acc c articles categories' (s, st)))) i =
                 collection_articles st i))"
proof (intro conjI)
  define q where "q = update_article_query E s v acc a"
  define pre where "pre = str_int v @ ''_article''"
  define s2 where "s2 = invalidate pre (invalidate ''article'' s)"
  obtain rs w1 where rq: "run_query E q (Some q) (Some pre) (s2, st) = (rs, w1)"
    by (cases "run_query E q (Some q) (Some pre) (s2, st)")
  obtain args where qa: "q = query_from_template s ''update_article'' args"
    unfolding q_def update_article_query_def by blast
  have g1: "graphs (snd w1) = graphs st"
    using update_query_keeps_graphs [OF E, of "''update_article''" s args "Some q" "Some pre" s2 st]
      rq
    unfolding qa [symmetric] by simp
  have unfold: "update_article E v acc a categories (s, st) =
      (if rs \<noteq> [] \<and> list_arg categories \<noteq> [] then
         (case delete_article_categories E v acc VNone w1 of
            (deleted, w2) \<Rightarrow>
              (case for_each (\<lambda>category. insert_article_category E v category)
                      (list_arg categories) w2 of
                 (Inl e, w3) \<Rightarrow> (Inl e, w3)
               | (Inr u, w3) \<Rightarrow> (Inr rs, w3)))
       else (Inr rs, w1))"
    using rq
    by (simp add: update_article_def Let_def q_def [symmetric] pre_def [symmetric]
        s2_def [symmetric])
  show "list_arg categories = [] \<or> fst (update_article E v acc a categories (s, st)) = Inr [] \<longrightarrow>
        graphs (snd (snd (update_article E v acc a categories (s, st)))) = graphs st"
    using unfold g1 by (auto split: prod.splits sum.splits if_splits)
next
  define q where "q = update_collection_query E s cv acc c"
  define pre where "pre = str_int cv @ ''_collection''"
  define s2 where "s2 = invalidate pre (invalidate ''collection'' s)"
  obtain rs w1 where rq: "run_query E q (Some q) (Some pre) (s2, st) = (rs, w1)"
    by (cases "run_query E q (Some q) (Some pre) (s2, st)")
  obtain args where qa: "q = query_from_template s ''update_collection'' args"
    unfolding q_def update_collection_query_def by blast
  have g1: "graphs (snd w1) = graphs st"
    using update_query_keeps_graphs [OF E, of "''update_collection''" s args "Some q" "Some pre" s2 st]
      rq
    unfolding qa [symmetric] by simp
  define p1 where "p1 =
      (if rs \<noteq> [] \<and> list_arg categories' \<noteq> [] then
         (case delete_collection_categories E cv acc VNone w1 of
            (deleted, w2) \<Rightarrow>
              for_each (\<lambda>category. insert_collection_category E cv category)
                (list_arg categories') w2)
       else (Inr (), w1))"
  obtain r1 w3 where p1: "p1 = (r1, w3)" by (cases p1)
  define P2 where "P2 = (\<lambda>w.
      (if rs \<noteq> [] \<and> list_arg articles \<noteq> [] then
         (case delete_collection_articles E cv acc w of
            (deleted, w4) \<Rightarrow>
              for_each (\<lambda>article_id. insert_collection_article E (Some cv) (Some article_id))
                (list_arg articles) w4)
       else (Inr (), w)))"
  define p2 where "p2 = P2 w3"
  obtain r2 w5 where p2: "p2 = (r2, w5)" by (cases p2)
  have unfold0: "update_collection E cv acc c articles categories' (s, st) =
      (case p1 of
         (Inl e, w3) \<Rightarrow> (Inl e, w3)
       | (Inr u, w3) \<Rightarrow>
           (case P2 w3 of (Inl e, w5) \<Rightarrow> (Inl e, w5) | (Inr u', w5) \<Rightarrow> (Inr rs, w5)))"
    using rq
    unfolding p1_def P2_def update_collection_def Let_def q_def pre_def s2_def
    by simp
  have unfold: "update_collection E cv acc c articles categories' (s, st) =
      (case r1 of
         Inl e \<Rightarrow> (Inl e, w3)
       | Inr u \<Rightarrow> (case r2 of Inl e \<Rightarrow> (Inl e, w5) | Inr u' \<Rightarrow> (Inr rs, w5)))"
    using unfold0 p1 p2 by (simp add: p2_def split: sum.splits)
  have empty: "fst (update_collection E cv acc c articles categories' (s, st)) = Inr [] \<Longrightarrow> rs = []"
    using unfold by (auto split: sum.splits)
  have art13: "collection_articles (snd w3) i = collection_articles (snd w1) i" for i
  proof -
    obtain d w2 where d: "delete_collection_categories E cv acc VNone w1 = (d, w2)"
      by (cases "delete_collection_categories E cv acc VNone w1")
    have a: "collection_articles (snd w2) i = collection_articles (snd w1) i"
      using delete_collection_categories_keeps [OF E, of cv acc VNone w1 i] d by simp
    have b: "collection_articles
               (snd (snd (for_each (\<lambda>category. insert_collection_category E cv category)
                            (list_arg categories') w2))) i = collection_articles (snd w2) i"
      by (rule for_each_keeps [where F = "\<lambda>x. collection_articles x i"])
         (rule insert_collection_category_keeps [OF E])
    show ?thesis using p1 a b d by (auto simp: p1_def split: if_splits)
  qed
  have cat35: "item_categories (snd w5) t i = item_categories (snd w3) t i" for t i
  proof -
    obtain d w4 where d: "delete_collection_articles E cv acc w3 = (d, w4)"
      by (cases "delete_collection_articles E cv acc w3")
    have a: "item_categories (snd w4) t i = item_categories (snd w3) t i"
      using delete_collection_articles_keeps [OF E, of cv acc w3 t i] d by simp
    have b: "item_categories
               (snd (snd (for_each (\<lambda>article_id. insert_collection_article E (Some cv)
                                       (Some article_id)) (list_arg articles) w4))) t i =
             item_categories (snd w4) t i"
      by (rule for_each_keeps [where F = "\<lambda>x. item_categories x t i"])
         (rule insert_collection_article_keeps [OF E])
    show ?thesis using p2 a b d by (auto simp: p2_def P2_def split: if_splits)
  qed
  have skip1: "list_arg categories' = [] \<or> rs = [] \<Longrightarrow> w3 = w1"
    using p1 by (auto simp: p1_def)
  have skip2: "list_arg articles = [] \<or> rs = [] \<Longrightarrow> w5 = w3"
    using p2 by (auto simp: p2_def P2_def)
  have final: "snd (update_collection E cv acc c articles categories' (s, st)) = w3 \<or>
               snd (update_collection E cv acc c articles categories' (s, st)) = w5"
    using unfold by (auto split: sum.splits)
  have c1: "item_categories (snd w1) t i = item_categories st t i" for t i
    using g1 by (simp add: item_categories_def)
  have a1: "collection_articles (snd w1) i = collection_articles st i" for i
    using g1 by (simp add: collection_articles_def)
  show "list_arg categories' = [] \<or>
          fst (update_collection E cv acc c articles categories' (s, st)) = Inr [] \<longrightarrow>
        (\<forall>t i. item_categories
                 (snd (snd (update_collection E cv acc c articles categories' (s, st)))) t i =
               item_categories st t i)"
    using final skip1 empty cat35 c1 by metis
  show "list_arg articles = [] \<or>
          fst (update_collection E cv acc c articles categories' (s, st)) = Inr [] \<longrightarrow>
        (\<forall>i. collection_articles
               (snd (snd (update_collection E cv acc c articles categories' (s, st)))) i =
             collection_articles st i)"
    using final skip2 empty art13 a1 by metis
qed

theorem update_without_list_keeps_links_witness:
  "item_categories
     (snd (snd (update_article ref_env 9 (VInt 1) no_patch (Some []) (db_links, store_12))))
     ''article'' 9 = [1, 2] \<and>
   collection_articles
     (snd (snd (update_collection ref_env 4 (VInt 1) no_collection_patch None (Some [5])
                 (db_links, store_12))))
     4 = [9]"
  using update_without_list_keeps_links [where E = ref_env and categories = "Some []"
      and v = 9 and acc = "VInt 1" and a = no_patch and s = db_links and st = store_12
      and articles = None and categories' = "Some [5]" and cv = 4 and c = no_collection_patch]
    store_12_links
  by (simp add: ref_env_def list_arg_def item_categories_def)

section \<open>Properties of the timestamp coercion\<close>
































end
